theory Spec2Isabelle
  imports Main
begin

section \<open>Medi-Friend: sessions, password reset and medication reminders\<close>

text \<open>
  A shallow embedding of \<^verbatim>\<open>src/main.py\<close>. Each route handler becomes a function that
  takes the database and the request and returns the response (or the raised error)
  together with the database after the request.

  Conventions of the model:
  \<^item> a \<^verbatim>\<open>datetime\<close> is an integer number of microseconds; a \<^verbatim>\<open>timedelta\<close> is a
    difference of such integers;
  \<^item> \<^verbatim>\<open>utc_now()\<close> reads the wall clock each time it is called. A handler that calls it
    several times gets one reading per call: the argument \<open>clk\<close> of a handler gives the
    reading \<open>clk k\<close> returned by the \<open>k\<close>-th call (counted from 0) that the handler makes;
  \<^item> \<^verbatim>\<open>secrets.token_urlsafe\<close> is an argument: the string that was drawn;
  \<^item> \<^verbatim>\<open>hashlib.sha256(...).hexdigest()\<close> is an argument \<open>H\<close>, and so is the value of
    \<^verbatim>\<open>SALT\<close>;
  \<^item> an \<^verbatim>\<open>ObjectId\<close> is a natural number, and \<^verbatim>\<open>str(_id)\<close> and \<^verbatim>\<open>ObjectId(s)\<close> are the
    identity on it; a collection is the list of its documents in natural order and the
    store hands out fresh identifiers from a counter;
  \<^item> a field that a document may lack is an \<open>option\<close>, read with \<^verbatim>\<open>.get\<close>: absent and
    \<^verbatim>\<open>None\<close> are both \<open>None\<close>;
  \<^item> the handlers are modelled for a configured database (\<^verbatim>\<open>db is not None\<close>), so the
    500 of \<^verbatim>\<open>require_db\<close> does not occur;
  \<^item> a \<^verbatim>\<open>str\<close> that is only stored and compared is a \<open>string\<close> (its bytes in UTF-8, on
    which equality is the same). \<open>time_12h\<close> goes through \<^verbatim>\<open>str.upper\<close>, which works on the
    code points of the string and can change its length, so it is a list of code points;
  \<^item> \<^verbatim>\<open>str.lower\<close> is only used to compare the start of the authorization header with
    \<^verbatim>\<open>bearer \<close> and is modelled on the ASCII letters of the header.
\<close>

subsection \<open>Documents and the database\<close>

type_synonym oid = nat
type_synonym datetime = int
type_synonym clock = "nat \<Rightarrow> datetime"
type_synonym codepoint = nat

record user_doc =
  u_id :: oid
  u_name :: string
  u_email :: string
  u_password_hash :: string
  u_notifications_enabled :: bool
  u_created_at :: datetime
  u_updated_at :: datetime
  u_reset_token :: "string option"
  u_reset_token_expires :: "datetime option"

record session_doc =
  s_id :: oid
  s_user_id :: oid
  s_token :: string
  s_created_at :: datetime
  s_expires_at :: "datetime option"

record medication_doc =
  m_id :: oid
  m_user_id :: oid
  m_name :: string
  m_dosage :: string
  m_time_12h :: "codepoint list"
  m_frequency :: string
  m_notes :: "string option"
  m_created_at :: datetime
  m_updated_at :: datetime
  m_last_taken_at :: "datetime option"
  m_snooze_until_utc :: "datetime option"

record database =
  user :: "user_doc list"
  session :: "session_doc list"
  medication :: "medication_doc list"
  next_oid :: oid

definition empty_db :: database where
  "empty_db = \<lparr>user = [], session = [], medication = [], next_oid = 0\<rparr>"

datatype error = HTTPException nat string | TypeError

subsection \<open>The collection operations of the store\<close>

fun find_one :: "('a \<Rightarrow> bool) \<Rightarrow> 'a list \<Rightarrow> 'a option" where
  "find_one P [] = None"
| "find_one P (x # xs) = (if P x then Some x else find_one P xs)"

fun update_one :: "('a \<Rightarrow> bool) \<Rightarrow> ('a \<Rightarrow> 'a) \<Rightarrow> 'a list \<Rightarrow> 'a list" where
  "update_one P f [] = []"
| "update_one P f (x # xs) = (if P x then f x # xs else x # update_one P f xs)"

fun delete_one :: "('a \<Rightarrow> bool) \<Rightarrow> 'a list \<Rightarrow> 'a list" where
  "delete_one P [] = []"
| "delete_one P (x # xs) = (if P x then xs else x # delete_one P xs)"

subsection \<open>Helpers\<close>

definition days :: "int \<Rightarrow> int" where
  "days n = n * 86400000000"

definition hours :: "int \<Rightarrow> int" where
  "hours n = n * 3600000000"

definition minutes :: "int \<Rightarrow> int" where
  "minutes n = n * 60000000"

definition lower_char :: "char \<Rightarrow> char" where
  "lower_char c = (let n = (of_char c :: nat) in if 65 \<le> n \<and> n \<le> 90 then char_of (n + 32) else c)"

definition lower :: "string \<Rightarrow> string" where
  "lower s = map lower_char s"

text \<open>
  \<^verbatim>\<open>str.upper\<close> replaces every code point of the string by its full uppercase mapping, a
  sequence of one to three code points, and concatenates the results. \<open>to_upper_latin1\<close>
  is that mapping on the code points below 256: the letters a to z, the letters
  \<^verbatim>\<open>U+00E0\<close> to \<^verbatim>\<open>U+00FE\<close> other than the division sign, the micro sign (to the Greek
  capital mu), the sharp s (to \<^verbatim>\<open>SS\<close>) and the y with diaeresis (to \<^verbatim>\<open>U+0178\<close>); every
  other code point below 256 is its own uppercase. For the code points from 256 on the
  mapping is the table of the Unicode character database, which is not part of the
  repository: it is the argument \<open>ucd\<close>.
\<close>

definition to_upper_latin1 :: "codepoint \<Rightarrow> codepoint list" where
  "to_upper_latin1 c =
     (if 97 \<le> c \<and> c \<le> 122 then [c - 32]
      else if c = 181 then [924]
      else if c = 223 then [83, 83]
      else if (224 \<le> c \<and> c \<le> 246) \<or> (248 \<le> c \<and> c \<le> 254) then [c - 32]
      else if c = 255 then [376]
      else [c])"

definition upper :: "(codepoint \<Rightarrow> codepoint list) \<Rightarrow> codepoint list \<Rightarrow> codepoint list" where
  "upper ucd s = concat (map (\<lambda>c. if c < 256 then to_upper_latin1 c else ucd c) s)"

text \<open>The code points of a string literal of ASCII characters.\<close>

definition codepoints :: "string \<Rightarrow> codepoint list" where
  "codepoints s = map of_char s"

fun startswith :: "string \<Rightarrow> string \<Rightarrow> bool" where
  "startswith s [] = True"
| "startswith [] (p # ps) = False"
| "startswith (c # cs) (p # ps) = (c = p \<and> startswith cs ps)"

definition hash_password :: "(string \<Rightarrow> string) \<Rightarrow> string \<Rightarrow> string \<Rightarrow> string" where
  "hash_password H SALT password = H (password @ SALT)"

definition get_user_by_email :: "database \<Rightarrow> string \<Rightarrow> user_doc option" where
  "get_user_by_email db email = find_one (\<lambda>u. u_email u = email) (user db)"

subsection \<open>Request and response models\<close>

record signup_in =
  si_name :: string
  si_email :: string
  si_password :: string

record login_in =
  li_email :: string
  li_password :: string

record token_out =
  to_token :: string
  to_name :: string
  to_email :: string
  to_notifications_enabled :: bool

record reset_in =
  ri_email :: string
  ri_reset_token :: string
  ri_new_password :: string

record medication_in =
  mi_name :: string
  mi_dosage :: string
  mi_time_12h :: "codepoint list"
  mi_frequency :: string
  mi_notes :: "string option"

record medication_out =
  mo_id :: oid
  mo_name :: string
  mo_dosage :: string
  mo_time_12h :: "codepoint list"
  mo_frequency :: string
  mo_notes :: "string option"
  mo_last_taken_at :: "datetime option"
  mo_snooze_until_utc :: "datetime option"

text \<open>The dictionary that \<^verbatim>\<open>get_current_user\<close> returns.\<close>

record principal =
  p_id :: oid
  p_name :: string
  p_email :: string
  p_notifications_enabled :: bool

subsection \<open>The auth dependency\<close>

text \<open>
  \<^verbatim>\<open>authorization.split(" ", 1)[1]\<close> is what follows the first space. It is only reached
  when the header starts with \<^verbatim>\<open>bearer \<close> in some casing, so the first space exists.
  The user is looked up before the expiry is compared, and the comparison is strict.
\<close>

definition bearer_token :: "string \<Rightarrow> string" where
  "bearer_token authorization = drop 1 (dropWhile (\<lambda>c. c \<noteq> CHR '' '') authorization)"

definition get_current_user ::
  "database \<Rightarrow> string option \<Rightarrow> clock \<Rightarrow> (error + principal) \<times> database" where
  "get_current_user db authorization clk =
     (case authorization of
        None \<Rightarrow> (Inl (HTTPException 401 ''Missing token''), db)
      | Some a \<Rightarrow>
          if a = [] \<or> \<not> startswith (lower a) ''bearer ''
          then (Inl (HTTPException 401 ''Missing token''), db)
          else
            (case find_one (\<lambda>s. s_token s = bearer_token a) (session db) of
               None \<Rightarrow> (Inl (HTTPException 401 ''Invalid token''), db)
             | Some sess \<Rightarrow>
                 (case find_one (\<lambda>u. u_id u = s_user_id sess) (user db) of
                    None \<Rightarrow> (Inl (HTTPException 401 ''User not found''), db)
                  | Some usr \<Rightarrow>
                      if (case s_expires_at sess of None \<Rightarrow> False | Some e \<Rightarrow> e < clk 0)
                      then (Inl (HTTPException 401 ''Session expired''),
                            db\<lparr>session := delete_one (\<lambda>s. s_id s = s_id sess) (session db)\<rparr>)
                      else (Inr \<lparr>p_id = u_id usr, p_name = u_name usr, p_email = u_email usr,
                                 p_notifications_enabled = u_notifications_enabled usr\<rparr>, db))))"

subsection \<open>Auth routes\<close>

definition signup ::
  "(string \<Rightarrow> string) \<Rightarrow> string \<Rightarrow> database \<Rightarrow> signup_in \<Rightarrow> string \<Rightarrow> clock
     \<Rightarrow> (error + token_out) \<times> database" where
  "signup H SALT db payload token clk =
     (case get_user_by_email db (si_email payload) of
        Some u \<Rightarrow> (Inl (HTTPException 400 ''Email already registered''), db)
      | None \<Rightarrow>
          (let user_id = next_oid db;
               user_doc = \<lparr>u_id = user_id, u_name = si_name payload, u_email = si_email payload,
                           u_password_hash = hash_password H SALT (si_password payload),
                           u_notifications_enabled = True,
                           u_created_at = clk 0, u_updated_at = clk 1,
                           u_reset_token = None, u_reset_token_expires = None\<rparr>;
               db1 = db\<lparr>user := user db @ [user_doc], next_oid := Suc (next_oid db)\<rparr>;
               sess = \<lparr>s_id = next_oid db1, s_user_id = user_id, s_token = token,
                       s_created_at = clk 2, s_expires_at = Some (clk 3 + days 7)\<rparr>;
               db2 = db1\<lparr>session := session db1 @ [sess], next_oid := Suc (next_oid db1)\<rparr>
           in (Inr \<lparr>to_token = token, to_name = si_name payload, to_email = si_email payload,
                     to_notifications_enabled = True\<rparr>, db2)))"

definition login ::
  "(string \<Rightarrow> string) \<Rightarrow> string \<Rightarrow> database \<Rightarrow> login_in \<Rightarrow> string \<Rightarrow> clock
     \<Rightarrow> (error + token_out) \<times> database" where
  "login H SALT db payload token clk =
     (case get_user_by_email db (li_email payload) of
        None \<Rightarrow> (Inl (HTTPException 401 ''Invalid credentials''), db)
      | Some usr \<Rightarrow>
          if u_password_hash usr \<noteq> hash_password H SALT (li_password payload)
          then (Inl (HTTPException 401 ''Invalid credentials''), db)
          else
            (let sess = \<lparr>s_id = next_oid db, s_user_id = u_id usr, s_token = token,
                         s_created_at = clk 0, s_expires_at = Some (clk 1 + days 7)\<rparr>;
                 db1 = db\<lparr>session := session db @ [sess], next_oid := Suc (next_oid db)\<rparr>
             in (Inr \<lparr>to_token = token, to_name = u_name usr, to_email = u_email usr,
                       to_notifications_enabled = u_notifications_enabled usr\<rparr>, db1)))"

definition logout :: "database \<Rightarrow> string option \<Rightarrow> (error + unit) \<times> database" where
  "logout db authorization =
     (case authorization of
        None \<Rightarrow> (Inr (), db)
      | Some a \<Rightarrow>
          if a \<noteq> [] \<and> startswith (lower a) ''bearer ''
          then (Inr (), db\<lparr>session := delete_one (\<lambda>s. s_token s = bearer_token a) (session db)\<rparr>)
          else (Inr (), db))"

text \<open>\<^verbatim>\<open>forgot\<close> answers with the reset token when the email is known, and without one otherwise.\<close>

definition forgot ::
  "database \<Rightarrow> string \<Rightarrow> string \<Rightarrow> clock \<Rightarrow> (error + string option) \<times> database" where
  "forgot db email reset_token clk =
     (case get_user_by_email db email of
        None \<Rightarrow> (Inr None, db)
      | Some usr \<Rightarrow>
          (Inr (Some reset_token),
           db\<lparr>user := update_one (\<lambda>u. u_id u = u_id usr)
                  (\<lambda>u. u\<lparr>u_reset_token := Some reset_token,
                          u_reset_token_expires := Some (clk 0 + hours 1)\<rparr>) (user db)\<rparr>))"

text \<open>
  The condition of \<^verbatim>\<open>reset\<close> is a short-circuit \<^verbatim>\<open>or\<close>: the expiry is compared only when
  the user exists and the tokens agree, and comparing a missing expiry (\<^verbatim>\<open>None < datetime\<close>)
  raises \<^verbatim>\<open>TypeError\<close>.
\<close>

definition reset ::
  "(string \<Rightarrow> string) \<Rightarrow> string \<Rightarrow> database \<Rightarrow> reset_in \<Rightarrow> clock
     \<Rightarrow> (error + unit) \<times> database" where
  "reset H SALT db payload clk =
     (case get_user_by_email db (ri_email payload) of
        None \<Rightarrow> (Inl (HTTPException 400 ''Invalid or expired token''), db)
      | Some usr \<Rightarrow>
          if u_reset_token usr \<noteq> Some (ri_reset_token payload)
          then (Inl (HTTPException 400 ''Invalid or expired token''), db)
          else
            (case u_reset_token_expires usr of
               None \<Rightarrow> (Inl TypeError, db)
             | Some e \<Rightarrow>
                 if e < clk 0
                 then (Inl (HTTPException 400 ''Invalid or expired token''), db)
                 else (Inr (),
                       db\<lparr>user := update_one (\<lambda>u. u_id u = u_id usr)
                              (\<lambda>u. u\<lparr>u_password_hash := hash_password H SALT (ri_new_password payload),
                                      u_reset_token := None, u_reset_token_expires := None\<rparr>)
                              (user db)\<rparr>)))"

definition update_settings ::
  "database \<Rightarrow> bool option \<Rightarrow> principal \<Rightarrow> (error + principal) \<times> database" where
  "update_settings db notifications_enabled usr =
     (case notifications_enabled of
        None \<Rightarrow> (Inr usr, db)
      | Some b \<Rightarrow>
          (Inr (usr\<lparr>p_notifications_enabled := b\<rparr>),
           db\<lparr>user := update_one (\<lambda>u. u_id u = p_id usr)
                  (\<lambda>u. u\<lparr>u_notifications_enabled := b\<rparr>) (user db)\<rparr>))"

subsection \<open>Medication routes\<close>

text \<open>
  Each handler receives the principal that \<^verbatim>\<open>get_current_user\<close> resolved. The path
  parameter \<^verbatim>\<open>med_id\<close> is the identifier that \<^verbatim>\<open>ObjectId(med_id)\<close> denotes.
\<close>

definition med_out :: "medication_doc \<Rightarrow> medication_out" where
  "med_out m = \<lparr>mo_id = m_id m, mo_name = m_name m, mo_dosage = m_dosage m,
                mo_time_12h = m_time_12h m, mo_frequency = m_frequency m, mo_notes = m_notes m,
                mo_last_taken_at = m_last_taken_at m,
                mo_snooze_until_utc = m_snooze_until_utc m\<rparr>"

definition create_med ::
  "(codepoint \<Rightarrow> codepoint list) \<Rightarrow> database \<Rightarrow> medication_in \<Rightarrow> principal \<Rightarrow> clock
     \<Rightarrow> (error + medication_out) \<times> database" where
  "create_med ucd db med usr clk =
     (let doc = \<lparr>m_id = next_oid db, m_user_id = p_id usr, m_name = mi_name med,
                 m_dosage = mi_dosage med, m_time_12h = upper ucd (mi_time_12h med),
                 m_frequency = mi_frequency med, m_notes = mi_notes med,
                 m_created_at = clk 0, m_updated_at = clk 1,
                 m_last_taken_at = None, m_snooze_until_utc = None\<rparr>
      in (Inr \<lparr>mo_id = m_id doc, mo_name = m_name doc, mo_dosage = m_dosage doc,
                mo_time_12h = m_time_12h doc, mo_frequency = m_frequency doc,
                mo_notes = m_notes doc, mo_last_taken_at = None, mo_snooze_until_utc = None\<rparr>,
          db\<lparr>medication := medication db @ [doc], next_oid := Suc (next_oid db)\<rparr>))"

definition update_med ::
  "(codepoint \<Rightarrow> codepoint list) \<Rightarrow> database \<Rightarrow> oid \<Rightarrow> medication_in \<Rightarrow> principal \<Rightarrow> clock
     \<Rightarrow> (error + medication_out) \<times> database" where
  "update_med ucd db med_id med usr clk =
     (case find_one (\<lambda>x. m_id x = med_id \<and> m_user_id x = p_id usr) (medication db) of
        None \<Rightarrow> (Inl (HTTPException 404 ''Not found''), db)
      | Some m \<Rightarrow>
          (let updates = (\<lambda>x. x\<lparr>m_name := mi_name med, m_dosage := mi_dosage med,
                                m_time_12h := upper ucd (mi_time_12h med),
                                m_frequency := mi_frequency med, m_notes := mi_notes med,
                                m_updated_at := clk 0\<rparr>)
           in (Inr (med_out (updates m)),
               db\<lparr>medication := update_one (\<lambda>x. m_id x = m_id m) updates (medication db)\<rparr>)))"

definition delete_med :: "database \<Rightarrow> oid \<Rightarrow> principal \<Rightarrow> (error + unit) \<times> database" where
  "delete_med db med_id usr =
     (Inr (),
      db\<lparr>medication :=
           delete_one (\<lambda>x. m_id x = med_id \<and> m_user_id x = p_id usr) (medication db)\<rparr>)"

definition mark_taken ::
  "database \<Rightarrow> oid \<Rightarrow> principal \<Rightarrow> clock \<Rightarrow> (error + unit) \<times> database" where
  "mark_taken db med_id usr clk =
     (case find_one (\<lambda>x. m_id x = med_id \<and> m_user_id x = p_id usr) (medication db) of
        None \<Rightarrow> (Inl (HTTPException 404 ''Not found''), db)
      | Some m \<Rightarrow>
          (Inr (),
           db\<lparr>medication := update_one (\<lambda>x. m_id x = m_id m)
                  (\<lambda>x. x\<lparr>m_last_taken_at := Some (clk 0), m_snooze_until_utc := None,
                          m_updated_at := clk 1\<rparr>) (medication db)\<rparr>))"

text \<open>The answer of \<^verbatim>\<open>snooze\<close> carries a third clock reading, not the stored value.\<close>

definition snooze ::
  "database \<Rightarrow> oid \<Rightarrow> principal \<Rightarrow> clock \<Rightarrow> (error + datetime) \<times> database" where
  "snooze db med_id usr clk =
     (case find_one (\<lambda>x. m_id x = med_id \<and> m_user_id x = p_id usr) (medication db) of
        None \<Rightarrow> (Inl (HTTPException 404 ''Not found''), db)
      | Some m \<Rightarrow>
          (Inr (clk 2 + minutes 10),
           db\<lparr>medication := update_one (\<lambda>x. m_id x = m_id m)
                  (\<lambda>x. x\<lparr>m_snooze_until_utc := Some (clk 0 + minutes 10),
                          m_updated_at := clk 1\<rparr>) (medication db)\<rparr>))"

subsection \<open>Requests against the running service\<close>

text \<open>
  A request to an authenticated route first runs \<^verbatim>\<open>get_current_user\<close> on the header (with
  its own clock readings) and calls the handler only with the principal it returned.
  \<open>handle\<close> gives the database after one request, \<open>run\<close> after a sequence of them;
  \<open>H\<close>, \<open>SALT\<close> and \<open>ucd\<close> are the hash function, the salt and the uppercase table
  of the running process.
\<close>

datatype request =
    Signup signup_in string clock
  | Login login_in string clock
  | Logout "string option"
  | Forgot string string clock
  | Reset reset_in clock
  | Me "string option" clock
  | UpdateSettings "string option" clock "bool option"
  | CreateMed "string option" clock medication_in clock
  | UpdateMed "string option" clock oid medication_in clock
  | DeleteMed "string option" clock oid
  | MarkTaken "string option" clock oid clock
  | Snooze "string option" clock oid clock

definition authenticated ::
  "database \<Rightarrow> string option \<Rightarrow> clock \<Rightarrow> (database \<Rightarrow> principal \<Rightarrow> database) \<Rightarrow> database" where
  "authenticated db authorization clk h =
     (case get_current_user db authorization clk of
        (Inl e, db') \<Rightarrow> db'
      | (Inr usr, db') \<Rightarrow> h db' usr)"

fun handle ::
  "(string \<Rightarrow> string) \<Rightarrow> string \<Rightarrow> (codepoint \<Rightarrow> codepoint list) \<Rightarrow> database \<Rightarrow> request
     \<Rightarrow> database" where
  "handle H SALT ucd db (Signup payload token clk) = snd (signup H SALT db payload token clk)"
| "handle H SALT ucd db (Login payload token clk) = snd (login H SALT db payload token clk)"
| "handle H SALT ucd db (Logout authorization) = snd (logout db authorization)"
| "handle H SALT ucd db (Forgot email token clk) = snd (forgot db email token clk)"
| "handle H SALT ucd db (Reset payload clk) = snd (reset H SALT db payload clk)"
| "handle H SALT ucd db (Me a ca) = authenticated db a ca (\<lambda>d usr. d)"
| "handle H SALT ucd db (UpdateSettings a ca b) =
     authenticated db a ca (\<lambda>d usr. snd (update_settings d b usr))"
| "handle H SALT ucd db (CreateMed a ca med clk) =
     authenticated db a ca (\<lambda>d usr. snd (create_med ucd d med usr clk))"
| "handle H SALT ucd db (UpdateMed a ca med_id med clk) =
     authenticated db a ca (\<lambda>d usr. snd (update_med ucd d med_id med usr clk))"
| "handle H SALT ucd db (DeleteMed a ca med_id) =
     authenticated db a ca (\<lambda>d usr. snd (delete_med d med_id usr))"
| "handle H SALT ucd db (MarkTaken a ca med_id clk) =
     authenticated db a ca (\<lambda>d usr. snd (mark_taken d med_id usr clk))"
| "handle H SALT ucd db (Snooze a ca med_id clk) =
     authenticated db a ca (\<lambda>d usr. snd (snooze d med_id usr clk))"

fun run ::
  "(string \<Rightarrow> string) \<Rightarrow> string \<Rightarrow> (codepoint \<Rightarrow> codepoint list) \<Rightarrow> database \<Rightarrow> request list
     \<Rightarrow> database" where
  "run H SALT ucd db [] = db"
| "run H SALT ucd db (r # rs) = run H SALT ucd (handle H SALT ucd db r) rs"

subsection \<open>Predicates used in the statements\<close>

text \<open>The store keeps \<^verbatim>\<open>_id\<close> unique within a collection.\<close>

definition unique_ids :: "database \<Rightarrow> bool" where
  "unique_ids db \<longleftrightarrow> distinct (map u_id (user db)) \<and> distinct (map s_id (session db))
                    \<and> distinct (map m_id (medication db))"

text \<open>Every identifier in the store was handed out by the counter.\<close>

definition ids_below :: "database \<Rightarrow> bool" where
  "ids_below db \<longleftrightarrow> list_all (\<lambda>u. u_id u < next_oid db) (user db)
                   \<and> list_all (\<lambda>s. s_id s < next_oid db) (session db)
                   \<and> list_all (\<lambda>m. m_id m < next_oid db) (medication db)"

definition ids_ok :: "database \<Rightarrow> bool" where
  "ids_ok db \<longleftrightarrow> unique_ids db \<and> ids_below db"

text \<open>A user document has a reset token exactly when it has an expiry for it.\<close>

definition reset_fields_paired :: "database \<Rightarrow> bool" where
  "reset_fields_paired db \<longleftrightarrow>
     list_all (\<lambda>u. (u_reset_token u = None) = (u_reset_token_expires u = None)) (user db)"

text \<open>The status code of a response: an error of the 401 kind is "unauthenticated".\<close>

fun unauthenticated :: "error + 'a \<Rightarrow> bool" where
  "unauthenticated (Inl (HTTPException code detail)) = (code = 401)"
| "unauthenticated (Inl TypeError) = False"
| "unauthenticated (Inr v) = False"

subsection \<open>Clocks and sample data\<close>

text \<open>
  \<open>at_time t\<close> is a clock that reads \<open>t\<close> at every call; \<open>ticking t\<close> advances by
  one microsecond from one call to the next.
\<close>

definition at_time :: "datetime \<Rightarrow> clock" where
  "at_time t k = t"

definition ticking :: "datetime \<Rightarrow> clock" where
  "ticking t k = t + int k"

text \<open>An uppercase table under which no code point from 256 on has case.\<close>

definition caseless :: "codepoint \<Rightarrow> codepoint list" where
  "caseless c = [c]"

definition alice_doc :: user_doc where
  "alice_doc = \<lparr>u_id = 0, u_name = ''Alice'', u_email = ''a@x.com'',
                 u_password_hash = ''tlas1wp'', u_notifications_enabled = True,
                 u_created_at = 0, u_updated_at = 0,
                 u_reset_token = Some ''R1'', u_reset_token_expires = Some 500\<rparr>"

definition bob_doc :: user_doc where
  "bob_doc = \<lparr>u_id = 1, u_name = ''Bob'', u_email = ''b@x.com'',
               u_password_hash = ''tlas2wp'', u_notifications_enabled = True,
               u_created_at = 1, u_updated_at = 1,
               u_reset_token = None, u_reset_token_expires = None\<rparr>"

definition alice :: principal where
  "alice = \<lparr>p_id = 0, p_name = ''Alice'', p_email = ''a@x.com'', p_notifications_enabled = True\<rparr>"

definition bob :: principal where
  "bob = \<lparr>p_id = 1, p_name = ''Bob'', p_email = ''b@x.com'', p_notifications_enabled = True\<rparr>"

definition alice_session :: session_doc where
  "alice_session = \<lparr>s_id = 3, s_user_id = 0, s_token = ''T1'', s_created_at = 0,
                     s_expires_at = Some 1000\<rparr>"

text \<open>A session whose user document is not in the store.\<close>

definition orphan_session :: session_doc where
  "orphan_session = \<lparr>s_id = 4, s_user_id = 9, s_token = ''T9'', s_created_at = 0,
                      s_expires_at = Some 1000\<rparr>"

definition pill :: medication_doc where
  "pill = \<lparr>m_id = 2, m_user_id = 0, m_name = ''Aspirin'', m_dosage = ''1 tablet'',
            m_time_12h = codepoints ''8:05 PM'', m_frequency = ''daily'', m_notes = None,
            m_created_at = 10, m_updated_at = 10,
            m_last_taken_at = Some 20, m_snooze_until_utc = Some 30\<rparr>"

definition demo_db :: database where
  "demo_db = \<lparr>user = [alice_doc, bob_doc], session = [alice_session, orphan_session],
               medication = [pill], next_oid = 5\<rparr>"

definition syrup_in :: medication_in where
  "syrup_in = \<lparr>mi_name = ''Syrup'', mi_dosage = ''2ml'', mi_time_12h = codepoints ''8:05 pm'',
                mi_frequency = ''daily'', mi_notes = Some ''after dinner''\<rparr>"

definition morning_in :: medication_in where
  "morning_in = \<lparr>mi_name = ''Drops'', mi_dosage = ''3 drops'', mi_time_12h = codepoints ''9:30 am'',
                  mi_frequency = ''weekly'', mi_notes = None\<rparr>"

definition hourly_in :: medication_in where
  "hourly_in = \<lparr>mi_name = ''Syrup'', mi_dosage = ''2ml'', mi_time_12h = codepoints ''8:05 pm'',
                 mi_frequency = ''hourly'', mi_notes = None\<rparr>"

definition carol_in :: signup_in where
  "carol_in = \<lparr>si_name = ''Carol'', si_email = ''c@x.com'', si_password = ''pw3''\<rparr>"

definition alice_login :: login_in where
  "alice_login = \<lparr>li_email = ''a@x.com'', li_password = ''pw1''\<rparr>"

definition alice_reset :: reset_in where
  "alice_reset = \<lparr>ri_email = ''a@x.com'', ri_reset_token = ''R1'', ri_new_password = ''pw9''\<rparr>"

definition carol_reset :: reset_in where
  "carol_reset = \<lparr>ri_email = ''c@x.com'', ri_reset_token = ''R3'', ri_new_password = ''pw9''\<rparr>"

text \<open>Carol signs up and asks for a reset token.\<close>

definition carol_requests :: "request list" where
  "carol_requests = [Signup carol_in ''T3'' (ticking 0), Forgot ''c@x.com'' ''R3'' (ticking 10)]"

section \<open>Facts about the store operations\<close>

lemma find_one_Some: "find_one P xs = Some x \<Longrightarrow> x \<in> set xs \<and> P x"
  by (induction xs) (auto split: if_splits)

lemma find_one_None: "(find_one P xs = None) = (\<forall>x\<in>set xs. \<not> P x)"
  by (induction xs) auto

lemma unique_key:
  "distinct (map g xs) \<Longrightarrow> x \<in> set xs \<Longrightarrow> y \<in> set xs \<Longrightarrow> g y = g x \<Longrightarrow> y = x"
  by (induction xs) (auto simp: image_iff)

lemma find_one_by_key:
  "distinct (map g xs) \<Longrightarrow> x \<in> set xs \<Longrightarrow> P x \<Longrightarrow> find_one (\<lambda>y. g y = g x \<and> P y) xs = Some x"
  by (induction xs) (auto simp: image_iff)

lemma find_one_update_one:
  assumes "find_one P xs = Some u" and "\<And>x. x \<in> set xs \<Longrightarrow> Q x \<Longrightarrow> x = u"
    and "Q u" and "P (f u)"
  shows "find_one P (update_one Q f xs) = Some (f u)"
  using assms(1,2)
proof (induction xs)
  case Nil
  then show ?case by simp
next
  case (Cons a xs)
  show ?case
  proof (cases "P a")
    case True
    then have "a = u" using Cons.prems(1) by simp
    then show ?thesis using assms(3,4) by simp
  next
    case False
    then have tl: "find_one P xs = Some u" using Cons.prems(1) by simp
    have "Q a \<Longrightarrow> a = u" using Cons.prems(2) by simp
    moreover have "P u" using tl find_one_Some by fastforce
    ultimately have nq: "\<not> Q a" using False by blast
    have "find_one P (update_one Q f xs) = Some (f u)"
      using Cons.IH [OF tl] Cons.prems(2) by simp
    then show ?thesis using False nq by simp
  qed
qed

lemma delete_one_no_match: "\<forall>x\<in>set xs. \<not> P x \<Longrightarrow> delete_one P xs = xs"
  by (induction xs) auto

lemma delete_one_by_key:
  "distinct (map g xs) \<Longrightarrow> x \<in> set xs \<Longrightarrow> delete_one (\<lambda>y. g y = g x) xs = remove1 x xs"
  by (induction xs) (auto simp: image_iff)

lemma owned_medication_found:
  assumes "distinct (map m_id (medication db))" and "m \<in> set (medication db)"
    and "m_user_id m = p_id usr"
  shows "find_one (\<lambda>x. m_id x = m_id m \<and> m_user_id x = p_id usr) (medication db) = Some m"
  using find_one_by_key [of m_id "medication db" m "\<lambda>x. m_user_id x = p_id usr"] assms
  by simp

lemma foreign_medication_not_found:
  assumes "distinct (map m_id (medication db))" and "m \<in> set (medication db)"
    and "m_user_id m \<noteq> p_id usr"
  shows "find_one (\<lambda>x. m_id x = m_id m \<and> m_user_id x = p_id usr) (medication db) = None"
proof -
  have "\<not> (m_id x = m_id m \<and> m_user_id x = p_id usr)" if "x \<in> set (medication db)" for x
    using unique_key [OF assms(1) assms(2) that] assms(3) by auto
  then show ?thesis by (simp add: find_one_None)
qed

lemma owned_medication_updated:
  assumes "distinct (map m_id (medication db))" and "m \<in> set (medication db)"
    and "m_user_id m = p_id usr"
    and "m_id (f m) = m_id m" and "m_user_id (f m) = m_user_id m"
  shows "find_one (\<lambda>x. m_id x = m_id m \<and> m_user_id x = p_id usr)
           (update_one (\<lambda>x. m_id x = m_id m) f (medication db)) = Some (f m)"
proof (rule find_one_update_one)
  show "find_one (\<lambda>x. m_id x = m_id m \<and> m_user_id x = p_id usr) (medication db) = Some m"
    by (rule owned_medication_found [OF assms(1-3)])
  show "x = m" if "x \<in> set (medication db)" and "m_id x = m_id m" for x
    by (rule unique_key [OF assms(1) assms(2) that])
  show "m_id m = m_id m" by simp
  show "m_id (f m) = m_id m \<and> m_user_id (f m) = p_id usr"
    using assms(3-5) by simp
qed

section \<open>The medication state machine\<close>

text \<open>
  C5. For a medication \<open>m\<close> of the principal, whatever its \<open>m_last_taken_at\<close> and
  \<open>m_snooze_until_utc\<close> were, \<open>mark_taken\<close> succeeds and the stored document becomes \<open>m\<close>
  with \<open>m_last_taken_at\<close> set to the clock reading, \<open>m_snooze_until_utc\<close> cleared and
  \<open>m_updated_at\<close> refreshed.
\<close>

theorem mark_taken_sets_taken_clears_snooze:
  assumes "distinct (map m_id (medication db))"
    and "m \<in> set (medication db)"
    and "m_user_id m = p_id usr"
  shows "fst (mark_taken db (m_id m) usr clk) = Inr ()
       \<and> find_one (\<lambda>x. m_id x = m_id m \<and> m_user_id x = p_id usr)
           (medication (snd (mark_taken db (m_id m) usr clk)))
         = Some (m\<lparr>m_last_taken_at := Some (clk 0), m_snooze_until_utc := None,
                   m_updated_at := clk 1\<rparr>)"
proof -
  have "mark_taken db (m_id m) usr clk =
      (Inr (), db\<lparr>medication := update_one (\<lambda>x. m_id x = m_id m)
         (\<lambda>x. x\<lparr>m_last_taken_at := Some (clk 0), m_snooze_until_utc := None,
                 m_updated_at := clk 1\<rparr>) (medication db)\<rparr>)"
    unfolding mark_taken_def owned_medication_found [OF assms] by simp
  then show ?thesis
    using owned_medication_updated [OF assms, of "\<lambda>x. x\<lparr>m_last_taken_at := Some (clk 0),
      m_snooze_until_utc := None, m_updated_at := clk 1\<rparr>"] by simp
qed

theorem mark_taken_sets_taken_clears_snooze_witness:
  "distinct (map m_id (medication demo_db)) \<and> pill \<in> set (medication demo_db)
   \<and> m_user_id pill = p_id alice
   \<and> m_last_taken_at pill = Some 20 \<and> m_snooze_until_utc pill = Some 30
   \<and> fst (mark_taken demo_db 2 alice (ticking 100)) = Inr ()
   \<and> find_one (\<lambda>x. m_id x = 2 \<and> m_user_id x = 0)
        (medication (snd (mark_taken demo_db 2 alice (ticking 100))))
      = Some (pill\<lparr>m_last_taken_at := Some 100, m_snooze_until_utc := None,
                   m_updated_at := 101\<rparr>)"
  using mark_taken_sets_taken_clears_snooze [of demo_db pill alice "ticking 100"]
  by (simp add: demo_db_def pill_def alice_def ticking_def)

text \<open>
  C6. For a medication \<open>m\<close> of the principal, whatever its state, \<open>snooze\<close> succeeds and
  the stored document becomes \<open>m\<close> with \<open>m_snooze_until_utc\<close> set to the clock reading plus
  ten minutes and \<open>m_updated_at\<close> refreshed; \<open>m_last_taken_at\<close> keeps its value.
\<close>

theorem snooze_sets_snooze_keeps_last_taken:
  assumes "distinct (map m_id (medication db))"
    and "m \<in> set (medication db)"
    and "m_user_id m = p_id usr"
  shows "(\<exists>t. fst (snooze db (m_id m) usr clk) = Inr t)
       \<and> (\<exists>m'. find_one (\<lambda>x. m_id x = m_id m \<and> m_user_id x = p_id usr)
                  (medication (snd (snooze db (m_id m) usr clk))) = Some m'
               \<and> m' = m\<lparr>m_snooze_until_utc := Some (clk 0 + minutes 10), m_updated_at := clk 1\<rparr>
               \<and> m_snooze_until_utc m' = Some (clk 0 + 600000000)
               \<and> m_last_taken_at m' = m_last_taken_at m)"
proof -
  have "snooze db (m_id m) usr clk =
      (Inr (clk 2 + minutes 10), db\<lparr>medication := update_one (\<lambda>x. m_id x = m_id m)
         (\<lambda>x. x\<lparr>m_snooze_until_utc := Some (clk 0 + minutes 10),
                 m_updated_at := clk 1\<rparr>) (medication db)\<rparr>)"
    unfolding snooze_def owned_medication_found [OF assms] by simp
  then show ?thesis
    using owned_medication_updated [OF assms, of "\<lambda>x. x\<lparr>m_snooze_until_utc :=
      Some (clk 0 + minutes 10), m_updated_at := clk 1\<rparr>"] by (simp add: minutes_def)
qed

theorem snooze_sets_snooze_keeps_last_taken_witness:
  "distinct (map m_id (medication demo_db)) \<and> pill \<in> set (medication demo_db)
   \<and> m_user_id pill = p_id alice
   \<and> fst (snooze demo_db 2 alice (ticking 100)) = Inr 600000102
   \<and> find_one (\<lambda>x. m_id x = 2 \<and> m_user_id x = 0)
        (medication (snd (snooze demo_db 2 alice (ticking 100))))
      = Some (pill\<lparr>m_snooze_until_utc := Some 600000100, m_updated_at := 101\<rparr>)
   \<and> m_last_taken_at (pill\<lparr>m_snooze_until_utc := Some 600000100, m_updated_at := 101\<rparr>)
      = Some 20"
  using snooze_sets_snooze_keeps_last_taken [of demo_db pill alice "ticking 100"]
  by (simp add: demo_db_def pill_def alice_def ticking_def minutes_def snooze_def)

lemma upper_example: "upper U (codepoints ''8:05 pm'') = codepoints ''8:05 PM''"
  by (simp add: upper_def codepoints_def to_upper_latin1_def)

lemma upper_ascii:
  "list_all (\<lambda>c. c < 128) s
     \<Longrightarrow> upper U s = map (\<lambda>c. if 97 \<le> c \<and> c \<le> 122 then c - 32 else c) s"
  by (induction s) (auto simp: upper_def to_upper_latin1_def)

lemma upper_ascii_lowered:
  "list_all (\<lambda>c. c < 128) s
     \<Longrightarrow> upper U (map (\<lambda>c. if 65 \<le> c \<and> c \<le> 90 then c + 32 else c) s) = upper U s"
  by (induction s) (auto simp: upper_def to_upper_latin1_def)

lemma upper_latin1_examples: "upper U [233] = [201] \<and> upper U [223] = [83, 83]"
  by (simp add: upper_def to_upper_latin1_def)

text \<open>
  C7. For a medication \<open>m\<close> of the principal, \<open>update_med\<close> succeeds and the stored document
  becomes \<open>m\<close> with name, dosage, time (in upper case), frequency and notes taken from the
  request and \<open>m_updated_at\<close> refreshed; \<open>m_last_taken_at\<close> and \<open>m_snooze_until_utc\<close> have
  the values they had before, in the store and in the response.
\<close>

theorem update_med_replaces_fields_keeps_state:
  assumes "distinct (map m_id (medication db))"
    and "m \<in> set (medication db)"
    and "m_user_id m = p_id usr"
  shows "\<exists>m'. m' = m\<lparr>m_name := mi_name med, m_dosage := mi_dosage med,
                      m_time_12h := upper U (mi_time_12h med), m_frequency := mi_frequency med,
                      m_notes := mi_notes med, m_updated_at := clk 0\<rparr>
            \<and> fst (update_med U db (m_id m) med usr clk) = Inr (med_out m')
            \<and> find_one (\<lambda>x. m_id x = m_id m \<and> m_user_id x = p_id usr)
                  (medication (snd (update_med U db (m_id m) med usr clk))) = Some m'
            \<and> m_last_taken_at m' = m_last_taken_at m
            \<and> m_snooze_until_utc m' = m_snooze_until_utc m
            \<and> mo_last_taken_at (med_out m') = m_last_taken_at m
            \<and> mo_snooze_until_utc (med_out m') = m_snooze_until_utc m"
proof -
  let ?f = "\<lambda>x. x\<lparr>m_name := mi_name med, m_dosage := mi_dosage med,
                      m_time_12h := upper U (mi_time_12h med), m_frequency := mi_frequency med,
                      m_notes := mi_notes med, m_updated_at := clk 0\<rparr>"
  have "update_med U db (m_id m) med usr clk =
      (Inr (med_out (?f m)),
       db\<lparr>medication := update_one (\<lambda>x. m_id x = m_id m) ?f (medication db)\<rparr>)"
    unfolding update_med_def owned_medication_found [OF assms] by (simp add: Let_def)
  then show ?thesis
    using owned_medication_updated [OF assms, of ?f] by (simp add: med_out_def)
qed

theorem update_med_replaces_fields_keeps_state_witness:
  "distinct (map m_id (medication demo_db)) \<and> pill \<in> set (medication demo_db)
   \<and> m_user_id pill = p_id alice
   \<and> find_one (\<lambda>x. m_id x = 2 \<and> m_user_id x = 0)
        (medication (snd (update_med caseless demo_db 2 syrup_in alice (ticking 100))))
      = Some \<lparr>m_id = 2, m_user_id = 0, m_name = ''Syrup'', m_dosage = ''2ml'',
            m_time_12h = codepoints ''8:05 PM'', m_frequency = ''daily'', m_notes = Some ''after dinner'',
            m_created_at = 10, m_updated_at = 100,
            m_last_taken_at = Some 20, m_snooze_until_utc = Some 30\<rparr>"
  using update_med_replaces_fields_keeps_state [where db = demo_db and m = pill and usr = alice and med = syrup_in
      and clk = "ticking 100" and U = caseless]
  by (simp add: demo_db_def pill_def alice_def ticking_def syrup_in_def upper_example)

text \<open>
  C3 (as amended). Let \<open>m\<close> be a stored medication whose owner is not the principal \<open>usr\<close>.
  On \<open>m\<close>'s identifier, \<open>update_med\<close>, \<open>mark_taken\<close> and \<open>snooze\<close> raise 404
  \<^verbatim>\<open>Not found\<close>, \<open>delete_med\<close> answers ok without deleting anything, and all four leave
  the whole database, and so \<open>m\<close>, as it was.
\<close>

theorem foreign_medication_untouched:
  assumes "distinct (map m_id (medication db))"
    and "m \<in> set (medication db)"
    and "m_user_id m \<noteq> p_id usr"
  shows "update_med U db (m_id m) med usr clk = (Inl (HTTPException 404 ''Not found''), db)
       \<and> mark_taken db (m_id m) usr clk = (Inl (HTTPException 404 ''Not found''), db)
       \<and> snooze db (m_id m) usr clk = (Inl (HTTPException 404 ''Not found''), db)
       \<and> delete_med db (m_id m) usr = (Inr (), db)"
proof -
  note none = foreign_medication_not_found [OF assms]
  have "delete_one (\<lambda>x. m_id x = m_id m \<and> m_user_id x = p_id usr) (medication db)
        = medication db"
    using none by (simp add: find_one_None delete_one_no_match)
  then have "delete_med db (m_id m) usr = (Inr (), db)"
    by (simp add: delete_med_def)
  then show ?thesis
    by (simp add: update_med_def mark_taken_def snooze_def none)
qed

theorem foreign_medication_untouched_witness:
  "distinct (map m_id (medication demo_db)) \<and> pill \<in> set (medication demo_db)
   \<and> m_user_id pill \<noteq> p_id bob
   \<and> update_med caseless demo_db 2 syrup_in bob (ticking 100)
       = (Inl (HTTPException 404 ''Not found''), demo_db)
   \<and> mark_taken demo_db 2 bob (ticking 100) = (Inl (HTTPException 404 ''Not found''), demo_db)
   \<and> snooze demo_db 2 bob (ticking 100) = (Inl (HTTPException 404 ''Not found''), demo_db)
   \<and> delete_med demo_db 2 bob = (Inr (), demo_db)"
  using foreign_medication_untouched [where db = demo_db and m = pill and usr = bob
      and med = syrup_in and clk = "ticking 100" and U = caseless]
  by (simp add: demo_db_def pill_def bob_def)

text \<open>
  C3 as stated fails for \<open>delete_med\<close>: Bob deleting Alice's medication gets the ok
  answer, not 404.
\<close>

theorem delete_med_foreign_counterexample:
  "pill \<in> set (medication demo_db) \<and> m_user_id pill = p_id alice \<and> p_id bob \<noteq> p_id alice
   \<and> fst (delete_med demo_db (m_id pill) bob) = Inr ()
   \<and> fst (delete_med demo_db (m_id pill) bob) \<noteq> Inl (HTTPException 404 ''Not found'')"
  by (simp add: demo_db_def pill_def alice_def bob_def delete_med_def)

text \<open>
  C4. \<open>create_med\<close> has no check of the frequency: a request with the frequency
  \<^verbatim>\<open>hourly\<close>, outside daily, alternate and weekly, is answered with the created
  medication, and the document is stored with that frequency.
\<close>

theorem create_med_stores_unlisted_frequency:
  "mi_frequency hourly_in \<notin> {''daily'', ''alternate'', ''weekly''}
   \<and> fst (create_med caseless demo_db hourly_in alice (ticking 100))
       = Inr \<lparr>mo_id = 5, mo_name = ''Syrup'', mo_dosage = ''2ml'', mo_time_12h = codepoints ''8:05 PM'',
              mo_frequency = ''hourly'', mo_notes = None, mo_last_taken_at = None,
              mo_snooze_until_utc = None\<rparr>
   \<and> medication (snd (create_med caseless demo_db hourly_in alice (ticking 100)))
       = [pill, \<lparr>m_id = 5, m_user_id = 0, m_name = ''Syrup'', m_dosage = ''2ml'',
                  m_time_12h = codepoints ''8:05 PM'', m_frequency = ''hourly'', m_notes = None,
                  m_created_at = 100, m_updated_at = 101,
                  m_last_taken_at = None, m_snooze_until_utc = None\<rparr>]"
  by (simp add: create_med_def hourly_in_def demo_db_def alice_def ticking_def upper_example)

lemma upper_ascii_case_insensitive:
  assumes "list_all (\<lambda>c. c < 128) s" and "list_all (\<lambda>c. c < 128) t"
    and "map (\<lambda>c. if 65 \<le> c \<and> c \<le> 90 then c + 32 else c) s
         = map (\<lambda>c. if 65 \<le> c \<and> c \<le> 90 then c + 32 else c) t"
  shows "upper U s = upper U t"
  using upper_ascii_lowered [OF assms(1), of U] upper_ascii_lowered [OF assms(2), of U] assms(3)
  by simp

lemma upper_by_code_point:
  "upper U s = concat (map (\<lambda>c.
       if 97 \<le> c \<and> c \<le> 122 then [c - 32]
       else if c = 181 then [924]
       else if c = 223 then [83, 83]
       else if (224 \<le> c \<and> c \<le> 246) \<or> (248 \<le> c \<and> c \<le> 254) then [c - 32]
       else if c = 255 then [376]
       else if c < 256 then [c]
       else U c) s)"
  unfolding upper_def
  by (rule arg_cong [where f = concat], rule map_cong [OF refl])
    (auto simp: to_upper_latin1_def)

text \<open>
  C9. \<open>create_med\<close> appends a document whose \<open>m_time_12h\<close> is \<open>upper\<close> of the request's
  \<open>mi_time_12h\<close>, and answers with the same value; \<open>update_med\<close> on a medication of the
  principal stores and answers it likewise. \<open>upper\<close> maps the string code point by code
  point: a to z and the lowercase letters of Latin-1 go to their capitals (the sharp s to
  \<^verbatim>\<open>SS\<close>), the other code points below 256 stay, and the code points from 256 on follow
  the table \<open>U\<close>. On an ASCII string this replaces a to z by A to Z and keeps everything
  else, so two ASCII requests that differ only in letter case store the same value, and
  \<^verbatim>\<open>8:05 pm\<close> is stored as \<^verbatim>\<open>8:05 PM\<close>.
\<close>

theorem time_12h_stored_in_upper_case:
  "(\<exists>out. fst (create_med U db med usr clk) = Inr out
          \<and> mo_time_12h out = upper U (mi_time_12h med))
   \<and> medication (snd (create_med U db med usr clk))
       = medication db @ [last (medication (snd (create_med U db med usr clk)))]
   \<and> m_time_12h (last (medication (snd (create_med U db med usr clk))))
       = upper U (mi_time_12h med)
   \<and> (distinct (map m_id (medication db)) \<and> m \<in> set (medication db) \<and> m_user_id m = p_id usr
        \<longrightarrow> (\<exists>m'. find_one (\<lambda>x. m_id x = m_id m \<and> m_user_id x = p_id usr)
                    (medication (snd (update_med U db (m_id m) med usr clk))) = Some m'
                 \<and> m_time_12h m' = upper U (mi_time_12h med)
                 \<and> fst (update_med U db (m_id m) med usr clk) = Inr (med_out m')
                 \<and> mo_time_12h (med_out m') = upper U (mi_time_12h med)))
   \<and> upper U (mi_time_12h med) = concat (map (\<lambda>c.
         if 97 \<le> c \<and> c \<le> 122 then [c - 32]
         else if c = 181 then [924]
         else if c = 223 then [83, 83]
         else if (224 \<le> c \<and> c \<le> 246) \<or> (248 \<le> c \<and> c \<le> 254) then [c - 32]
         else if c = 255 then [376]
         else if c < 256 then [c]
         else U c) (mi_time_12h med))
   \<and> (list_all (\<lambda>c. c < 128) (mi_time_12h med)
        \<longrightarrow> upper U (mi_time_12h med)
            = map (\<lambda>c. if 97 \<le> c \<and> c \<le> 122 then c - 32 else c) (mi_time_12h med))
   \<and> (list_all (\<lambda>c. c < 128) (mi_time_12h med) \<and> list_all (\<lambda>c. c < 128) (mi_time_12h med2)
        \<and> map (\<lambda>c. if 65 \<le> c \<and> c \<le> 90 then c + 32 else c) (mi_time_12h med)
            = map (\<lambda>c. if 65 \<le> c \<and> c \<le> 90 then c + 32 else c) (mi_time_12h med2)
        \<longrightarrow> upper U (mi_time_12h med) = upper U (mi_time_12h med2))
   \<and> upper U (codepoints ''8:05 pm'') = codepoints ''8:05 PM''
   \<and> upper U [233] = [201] \<and> upper U [223] = [83, 83]"
proof -
  have create: "create_med U db med usr clk =
      (Inr \<lparr>mo_id = next_oid db, mo_name = mi_name med, mo_dosage = mi_dosage med,
            mo_time_12h = upper U (mi_time_12h med), mo_frequency = mi_frequency med,
            mo_notes = mi_notes med, mo_last_taken_at = None, mo_snooze_until_utc = None\<rparr>,
       db\<lparr>medication := medication db @
            [\<lparr>m_id = next_oid db, m_user_id = p_id usr, m_name = mi_name med,
              m_dosage = mi_dosage med, m_time_12h = upper U (mi_time_12h med),
              m_frequency = mi_frequency med, m_notes = mi_notes med,
              m_created_at = clk 0, m_updated_at = clk 1,
              m_last_taken_at = None, m_snooze_until_utc = None\<rparr>],
          next_oid := Suc (next_oid db)\<rparr>)"
    by (simp add: create_med_def Let_def)
  have upd: "\<exists>m'. find_one (\<lambda>x. m_id x = m_id m \<and> m_user_id x = p_id usr)
                    (medication (snd (update_med U db (m_id m) med usr clk))) = Some m'
                 \<and> m_time_12h m' = upper U (mi_time_12h med)
                 \<and> fst (update_med U db (m_id m) med usr clk) = Inr (med_out m')
                 \<and> mo_time_12h (med_out m') = upper U (mi_time_12h med)"
    if h: "distinct (map m_id (medication db))" "m \<in> set (medication db)"
      "m_user_id m = p_id usr"
  proof -
    let ?f = "\<lambda>x. x\<lparr>m_name := mi_name med, m_dosage := mi_dosage med,
                      m_time_12h := upper U (mi_time_12h med), m_frequency := mi_frequency med,
                      m_notes := mi_notes med, m_updated_at := clk 0\<rparr>"
    have "update_med U db (m_id m) med usr clk =
        (Inr (med_out (?f m)),
         db\<lparr>medication := update_one (\<lambda>x. m_id x = m_id m) ?f (medication db)\<rparr>)"
      unfolding update_med_def owned_medication_found [OF h] by (simp add: Let_def)
    then show ?thesis
      using owned_medication_updated [OF h, of ?f] by (simp add: med_out_def)
  qed
  have c1: "\<exists>out. fst (create_med U db med usr clk) = Inr out
          \<and> mo_time_12h out = upper U (mi_time_12h med)"
    unfolding create by simp
  have c2: "medication (snd (create_med U db med usr clk))
       = medication db @ [last (medication (snd (create_med U db med usr clk)))]"
    unfolding create by simp
  have c3: "m_time_12h (last (medication (snd (create_med U db med usr clk))))
            = upper U (mi_time_12h med)"
    unfolding create by simp
  have c4: "list_all (\<lambda>c. c < 128) (mi_time_12h med) \<and> list_all (\<lambda>c. c < 128) (mi_time_12h med2)
        \<and> map (\<lambda>c. if 65 \<le> c \<and> c \<le> 90 then c + 32 else c) (mi_time_12h med)
            = map (\<lambda>c. if 65 \<le> c \<and> c \<le> 90 then c + 32 else c) (mi_time_12h med2)
        \<longrightarrow> upper U (mi_time_12h med) = upper U (mi_time_12h med2)"
    using upper_ascii_case_insensitive [of "mi_time_12h med" "mi_time_12h med2" U] by blast
  have c5: "list_all (\<lambda>c. c < 128) (mi_time_12h med)
        \<longrightarrow> upper U (mi_time_12h med)
            = map (\<lambda>c. if 97 \<le> c \<and> c \<le> 122 then c - 32 else c) (mi_time_12h med)"
    by (rule impI) (rule upper_ascii)
  show ?thesis
    by (intro conjI c1 c2 c3 c4 c5 upper_by_code_point upper_example
        upper_latin1_examples [THEN conjunct1] upper_latin1_examples [THEN conjunct2])
      (intro impI, elim conjE, rule upd)
qed

theorem time_12h_stored_in_upper_case_witness:
  "distinct (map m_id (medication demo_db)) \<and> pill \<in> set (medication demo_db)
   \<and> m_user_id pill = p_id alice
   \<and> medication demo_db = [pill] \<and> m_time_12h pill = codepoints ''8:05 PM''
   \<and> codepoints ''8:05 PM'' \<noteq> codepoints ''9:30 AM''
   \<and> mi_time_12h morning_in = codepoints ''9:30 am''
   \<and> list_all (\<lambda>c. c < 128) (codepoints ''9:30 am'')
   \<and> list_all (\<lambda>c. c < 128) (codepoints ''9:30 Am'')
   \<and> map (\<lambda>c. if 65 \<le> c \<and> c \<le> 90 then c + 32 else c) (codepoints ''9:30 am'')
       = map (\<lambda>c. if 65 \<le> c \<and> c \<le> 90 then c + 32 else c) (codepoints ''9:30 Am'')
   \<and> medication (snd (create_med caseless demo_db morning_in alice (ticking 100)))
       = [pill, last (medication (snd (create_med caseless demo_db morning_in alice (ticking 100))))]
   \<and> m_time_12h (last (medication (snd (create_med caseless demo_db morning_in alice
          (ticking 100)))))
       = codepoints ''9:30 AM''
   \<and> (\<exists>m'. find_one (\<lambda>x. m_id x = m_id pill \<and> m_user_id x = p_id alice)
               (medication (snd (update_med caseless demo_db (m_id pill) morning_in alice
                  (ticking 100))))
             = Some m'
            \<and> m_time_12h m' = codepoints ''9:30 AM'')
   \<and> upper caseless (codepoints ''9:30 Am'') = codepoints ''9:30 AM''"
proof -
  note t = time_12h_stored_in_upper_case [where db = demo_db and med = morning_in and usr = alice
        and clk = "ticking 100" and m = pill and U = caseless
        and ?med2.0 = "morning_in\<lparr>mi_time_12h := codepoints ''9:30 Am''\<rparr>"]
  have h1: "distinct (map m_id (medication demo_db)) \<and> pill \<in> set (medication demo_db)
      \<and> m_user_id pill = p_id alice"
    by (simp add: demo_db_def pill_def alice_def)
  have db: "medication demo_db = [pill]"
    by (simp add: demo_db_def)
  have old: "m_time_12h pill = codepoints ''8:05 PM''"
    by (simp add: pill_def)
  have ne: "codepoints ''8:05 PM'' \<noteq> codepoints ''9:30 AM''"
    by (simp add: codepoints_def)
  have t12: "mi_time_12h morning_in = codepoints ''9:30 am''"
    by (simp add: morning_in_def)
  have a1: "list_all (\<lambda>c. c < 128) (codepoints ''9:30 am'')"
    by (simp add: codepoints_def)
  have a2: "list_all (\<lambda>c. c < 128) (codepoints ''9:30 Am'')"
    by (simp add: codepoints_def)
  have lo: "map (\<lambda>c. if 65 \<le> c \<and> c \<le> 90 then c + 32 else c) (codepoints ''9:30 am'')
       = map (\<lambda>c. if 65 \<le> c \<and> c \<le> 90 then c + 32 else c) (codepoints ''9:30 Am'')"
    by (simp add: codepoints_def)
  have up: "upper caseless (mi_time_12h morning_in) = codepoints ''9:30 AM''"
    using t [THEN conjunct2, THEN conjunct2, THEN conjunct2, THEN conjunct2, THEN conjunct2,
        THEN conjunct1] a1
    by (simp add: t12 codepoints_def)
  have a: "medication (snd (create_med caseless demo_db morning_in alice (ticking 100)))
       = [pill, last (medication (snd (create_med caseless demo_db morning_in alice (ticking 100))))]"
    using t [THEN conjunct2, THEN conjunct1] db by simp
  have b: "m_time_12h (last (medication (snd (create_med caseless demo_db morning_in alice
          (ticking 100)))))
       = codepoints ''9:30 AM''"
    using t [THEN conjunct2, THEN conjunct2, THEN conjunct1] up by simp
  have c: "\<exists>m'. find_one (\<lambda>x. m_id x = m_id pill \<and> m_user_id x = p_id alice)
               (medication (snd (update_med caseless demo_db (m_id pill) morning_in alice
                  (ticking 100))))
             = Some m'
            \<and> m_time_12h m' = codepoints ''9:30 AM''"
    using t [THEN conjunct2, THEN conjunct2, THEN conjunct2, THEN conjunct1, THEN mp, OF h1] up
    by auto
  have d: "upper caseless (codepoints ''9:30 Am'') = codepoints ''9:30 AM''"
    using t [THEN conjunct2, THEN conjunct2, THEN conjunct2, THEN conjunct2, THEN conjunct2,
        THEN conjunct2, THEN conjunct1] a1 a2 lo up t12
    by simp
  show ?thesis
    by (intro conjI h1 [THEN conjunct1] h1 [THEN conjunct2, THEN conjunct1]
        h1 [THEN conjunct2, THEN conjunct2] db old ne t12 a1 a2 lo a b c d)
qed

section \<open>Sessions\<close>

text \<open>
  C8 (as amended). A session created by \<open>signup\<close> or \<open>login\<close> is appended to the collection
  with \<open>s_created_at\<close> the clock reading of one call of \<^verbatim>\<open>utc_now()\<close> and \<open>s_expires_at\<close>
  seven days after the reading of the next call. So \<open>s_expires_at\<close> is
  \<open>s_created_at\<close> plus seven days exactly when the two readings are equal.
\<close>

theorem session_expires_seven_days_after_second_reading:
  "(get_user_by_email db (si_email sp) = None \<longrightarrow>
      fst (signup H SALT db sp tok clk)
        = Inr \<lparr>to_token = tok, to_name = si_name sp, to_email = si_email sp,
               to_notifications_enabled = True\<rparr>
      \<and> session (snd (signup H SALT db sp tok clk))
        = session db @ [last (session (snd (signup H SALT db sp tok clk)))]
      \<and> s_token (last (session (snd (signup H SALT db sp tok clk)))) = tok
      \<and> s_created_at (last (session (snd (signup H SALT db sp tok clk)))) = clk 2
      \<and> s_expires_at (last (session (snd (signup H SALT db sp tok clk))))
        = Some (clk 3 + 604800000000)
      \<and> ((s_expires_at (last (session (snd (signup H SALT db sp tok clk))))
           = Some (s_created_at (last (session (snd (signup H SALT db sp tok clk)))) + days 7))
          = (clk 3 = clk 2)))
   \<and> (get_user_by_email db (li_email lp) = Some usr
        \<and> u_password_hash usr = hash_password H SALT (li_password lp) \<longrightarrow>
      fst (login H SALT db lp tok clk)
        = Inr \<lparr>to_token = tok, to_name = u_name usr, to_email = u_email usr,
               to_notifications_enabled = u_notifications_enabled usr\<rparr>
      \<and> session (snd (login H SALT db lp tok clk))
        = session db @ [last (session (snd (login H SALT db lp tok clk)))]
      \<and> s_token (last (session (snd (login H SALT db lp tok clk)))) = tok
      \<and> s_created_at (last (session (snd (login H SALT db lp tok clk)))) = clk 0
      \<and> s_expires_at (last (session (snd (login H SALT db lp tok clk))))
        = Some (clk 1 + 604800000000)
      \<and> ((s_expires_at (last (session (snd (login H SALT db lp tok clk))))
           = Some (s_created_at (last (session (snd (login H SALT db lp tok clk)))) + days 7))
          = (clk 1 = clk 0)))"
  by (simp add: signup_def login_def Let_def days_def)

theorem session_expires_seven_days_after_second_reading_witness:
  "get_user_by_email demo_db (si_email carol_in) = None
   \<and> get_user_by_email demo_db (li_email alice_login) = Some alice_doc
   \<and> u_password_hash alice_doc = hash_password rev ''salt'' (li_password alice_login)
   \<and> s_created_at (last (session (snd (signup rev ''salt'' demo_db carol_in ''T3'' (ticking 50)))))
       = 52
   \<and> s_expires_at (last (session (snd (signup rev ''salt'' demo_db carol_in ''T3'' (ticking 50)))))
       = Some 604800000053
   \<and> s_created_at (last (session (snd (login rev ''salt'' demo_db alice_login ''T4'' (at_time 50)))))
       = 50
   \<and> s_expires_at (last (session (snd (login rev ''salt'' demo_db alice_login ''T4'' (at_time 50)))))
       = Some 604800000050"
proof -
  have h1: "get_user_by_email demo_db (si_email carol_in) = None"
    by (simp add: get_user_by_email_def demo_db_def carol_in_def alice_doc_def bob_doc_def)
  have h2: "get_user_by_email demo_db (li_email alice_login) = Some alice_doc
      \<and> u_password_hash alice_doc = hash_password rev ''salt'' (li_password alice_login)"
    by (simp add: get_user_by_email_def demo_db_def alice_login_def alice_doc_def
        hash_password_def)
  show ?thesis
    using h1 h2
      session_expires_seven_days_after_second_reading [where db = demo_db and sp = carol_in
        and lp = alice_login and usr = alice_doc and H = rev and SALT = "''salt''"
        and tok = "''T3''" and clk = "ticking 50"]
      session_expires_seven_days_after_second_reading [where db = demo_db and sp = carol_in
        and lp = alice_login and usr = alice_doc and H = rev and SALT = "''salt''"
        and tok = "''T4''" and clk = "at_time 50"]
    by (simp add: ticking_def at_time_def)
qed

text \<open>
  C8 as stated fails when the clock advances between the two readings: with a clock that
  ticks one microsecond per call, the session that \<open>signup\<close> creates has
  \<open>s_created_at = 2\<close> and \<open>s_expires_at\<close> seven days after \<open>3\<close>.
\<close>

theorem session_expiry_counterexample:
  "fst (signup rev ''salt'' empty_db carol_in ''T3'' (ticking 0))
     = Inr \<lparr>to_token = ''T3'', to_name = ''Carol'', to_email = ''c@x.com'',
            to_notifications_enabled = True\<rparr>
   \<and> session (snd (signup rev ''salt'' empty_db carol_in ''T3'' (ticking 0)))
     = [\<lparr>s_id = 1, s_user_id = 0, s_token = ''T3'', s_created_at = 2,
         s_expires_at = Some 604800000003\<rparr>]
   \<and> Some (604800000003 :: int) \<noteq> Some (2 + days 7)"
  by (simp add: signup_def get_user_by_email_def empty_db_def carol_in_def ticking_def days_def
      Let_def)

lemma lower_Bearer: "lower (''Bearer '' @ tok) = ''bearer '' @ lower tok"
proof -
  have "lower ''Bearer '' = ''bearer ''" by code_simp
  then show ?thesis by (simp add: lower_def)
qed

lemma bearer_header:
  "''Bearer '' @ tok \<noteq> [] \<and> startswith (lower (''Bearer '' @ tok)) ''bearer ''
   \<and> bearer_token (''Bearer '' @ tok) = tok"
  unfolding lower_Bearer by (simp add: bearer_token_def)

lemma get_current_user_Bearer:
  "get_current_user db (Some (''Bearer '' @ tok)) clk =
     (case find_one (\<lambda>s. s_token s = tok) (session db) of
        None \<Rightarrow> (Inl (HTTPException 401 ''Invalid token''), db)
      | Some sess \<Rightarrow>
          (case find_one (\<lambda>u. u_id u = s_user_id sess) (user db) of
             None \<Rightarrow> (Inl (HTTPException 401 ''User not found''), db)
           | Some usr \<Rightarrow>
               if (case s_expires_at sess of None \<Rightarrow> False | Some e \<Rightarrow> e < clk 0)
               then (Inl (HTTPException 401 ''Session expired''),
                     db\<lparr>session := delete_one (\<lambda>s. s_id s = s_id sess) (session db)\<rparr>)
               else (Inr \<lparr>p_id = u_id usr, p_name = u_name usr, p_email = u_email usr,
                          p_notifications_enabled = u_notifications_enabled usr\<rparr>, db)))"
  using bearer_header [of tok] unfolding get_current_user_def by simp

text \<open>
  C1 (as amended). Let \<open>sess\<close> be the stored session that the token resolves to, with
  expiry \<open>e\<close>. The user is resolved first: if the user document is gone, the answer is the
  401 \<^verbatim>\<open>User not found\<close> and the store is left as it was, expired or not. If the user
  exists and the clock reads later than \<open>e\<close>, the answer is the 401 \<^verbatim>\<open>Session expired\<close>
  and the session is removed from the store; if the clock reads \<open>e\<close> or earlier, the
  principal is returned. So once the clock reads later than \<open>e\<close> the request is
  rejected with a 401 in every case.
\<close>

theorem expired_session_rejected:
  assumes "find_one (\<lambda>s. s_token s = tok) (session db) = Some sess"
    and "s_expires_at sess = Some e"
    and "distinct (map s_id (session db))"
  shows "get_current_user db (Some (''Bearer '' @ tok)) clk =
           (case find_one (\<lambda>u. u_id u = s_user_id sess) (user db) of
              None \<Rightarrow> (Inl (HTTPException 401 ''User not found''), db)
            | Some usr \<Rightarrow>
                if e < clk 0
                then (Inl (HTTPException 401 ''Session expired''),
                      db\<lparr>session := remove1 sess (session db)\<rparr>)
                else (Inr \<lparr>p_id = u_id usr, p_name = u_name usr, p_email = u_email usr,
                           p_notifications_enabled = u_notifications_enabled usr\<rparr>, db))
       \<and> (e < clk 0
            \<longrightarrow> unauthenticated (fst (get_current_user db (Some (''Bearer '' @ tok)) clk)))
       \<and> sess \<notin> set (remove1 sess (session db))"
proof -
  have mem: "sess \<in> set (session db)"
    using find_one_Some [OF assms(1)] by simp
  have del: "delete_one (\<lambda>s. s_id s = s_id sess) (session db) = remove1 sess (session db)"
    by (rule delete_one_by_key [OF assms(3) mem])
  have dist: "distinct (session db)"
    using assms(3) by (simp add: distinct_map)
  have res: "get_current_user db (Some (''Bearer '' @ tok)) clk =
           (case find_one (\<lambda>u. u_id u = s_user_id sess) (user db) of
              None \<Rightarrow> (Inl (HTTPException 401 ''User not found''), db)
            | Some usr \<Rightarrow>
                if e < clk 0
                then (Inl (HTTPException 401 ''Session expired''),
                      db\<lparr>session := remove1 sess (session db)\<rparr>)
                else (Inr \<lparr>p_id = u_id usr, p_name = u_name usr, p_email = u_email usr,
                           p_notifications_enabled = u_notifications_enabled usr\<rparr>, db))"
    unfolding get_current_user_Bearer assms(1) using assms(2) del
    by (simp split: option.split)
  have "e < clk 0
      \<longrightarrow> unauthenticated (fst (get_current_user db (Some (''Bearer '' @ tok)) clk))"
    unfolding res by (simp split: option.split)
  moreover have "sess \<notin> set (remove1 sess (session db))"
    using dist by simp
  ultimately show ?thesis using res by simp
qed

theorem expired_session_rejected_witness:
  "find_one (\<lambda>s. s_token s = ''T1'') (session demo_db) = Some alice_session
   \<and> find_one (\<lambda>s. s_token s = ''T9'') (session demo_db) = Some orphan_session
   \<and> s_expires_at alice_session = Some 1000 \<and> s_expires_at orphan_session = Some 1000
   \<and> (1000 :: int) < at_time 1001 0
   \<and> distinct (map s_id (session demo_db))
   \<and> get_current_user demo_db (Some ''Bearer T1'') (at_time 1001)
       = (Inl (HTTPException 401 ''Session expired''), demo_db\<lparr>session := [orphan_session]\<rparr>)
   \<and> get_current_user demo_db (Some ''Bearer T9'') (at_time 1001)
       = (Inl (HTTPException 401 ''User not found''), demo_db)
   \<and> get_current_user demo_db (Some ''Bearer T1'') (at_time 999) = (Inr alice, demo_db)"
  using expired_session_rejected [where db = demo_db and tok = "''T1''" and sess = alice_session
      and e = 1000 and clk = "at_time 1001"]
    expired_session_rejected [where db = demo_db and tok = "''T9''" and sess = orphan_session
      and e = 1000 and clk = "at_time 1001"]
    expired_session_rejected [where db = demo_db and tok = "''T1''" and sess = alice_session
      and e = 1000 and clk = "at_time 999"]
  by (simp add: demo_db_def alice_session_def orphan_session_def alice_doc_def bob_doc_def
      at_time_def alice_def)

text \<open>
  C1 as stated fails in two places. When the clock reads exactly the expiry, the session
  is still accepted and the principal is returned. When the user of an expired session is
  gone, the answer is \<^verbatim>\<open>User not found\<close> and the session stays in the store.
\<close>

theorem expired_session_counterexample:
  "s_expires_at alice_session = Some 1000 \<and> at_time 1000 0 = 1000
   \<and> get_current_user demo_db (Some ''Bearer T1'') (at_time 1000) = (Inr alice, demo_db)
   \<and> s_expires_at orphan_session = Some 1000 \<and> (1000 :: int) < at_time 2000 0
   \<and> get_current_user demo_db (Some ''Bearer T9'') (at_time 2000)
       = (Inl (HTTPException 401 ''User not found''), demo_db)
   \<and> orphan_session \<in> set (session demo_db)"
  unfolding get_current_user_Bearer [of _ "''T1''", simplified]
    get_current_user_Bearer [of _ "''T9''", simplified]
  by (simp add: demo_db_def alice_session_def orphan_session_def alice_doc_def bob_doc_def
      at_time_def alice_def)

section \<open>Password reset\<close>

lemma user_after_update:
  assumes "distinct (map u_id (user db))"
    and "get_user_by_email db email = Some usr"
    and "u_email (f usr) = email"
  shows "find_one (\<lambda>u. u_email u = email) (update_one (\<lambda>u. u_id u = u_id usr) f (user db))
         = Some (f usr)"
proof (rule find_one_update_one)
  show found: "find_one (\<lambda>u. u_email u = email) (user db) = Some usr"
    using assms(2) by (simp add: get_user_by_email_def)
  have mem: "usr \<in> set (user db)"
    using find_one_Some [OF found] by simp
  show "x = usr" if "x \<in> set (user db)" and "u_id x = u_id usr" for x
    by (rule unique_key [OF assms(1) mem that])
  show "u_id usr = u_id usr" by simp
  show "u_email (f usr) = email" by (rule assms(3))
qed

lemma user_email_of_found: "get_user_by_email db email = Some usr \<Longrightarrow> u_email usr = email"
  using find_one_Some [of "\<lambda>u. u_email u = email" "user db" usr]
  by (simp add: get_user_by_email_def)

text \<open>
  C2 (as amended). \<open>reset\<close> succeeds exactly when a user with the email exists, the request's
  token is the stored one and the clock reads no later than the stored expiry; with an
  unknown email, another token, or a clock later than the expiry it raises 400
  \<^verbatim>\<open>Invalid or expired token\<close> and changes nothing. On success the user's password hash is
  the hash of the new password and both reset fields are cleared, so the same request
  sent again, at any time, raises that 400.
\<close>

theorem reset_succeeds_iff_token_current:
  assumes "distinct (map u_id (user db))"
  shows "((fst (reset H SALT db payload clk) = Inr ()) =
            (\<exists>usr e. get_user_by_email db (ri_email payload) = Some usr
                  \<and> u_reset_token usr = Some (ri_reset_token payload)
                  \<and> u_reset_token_expires usr = Some e \<and> clk 0 \<le> e))
       \<and> (get_user_by_email db (ri_email payload) = None
            \<longrightarrow> reset H SALT db payload clk
                  = (Inl (HTTPException 400 ''Invalid or expired token''), db))
       \<and> (\<forall>usr. get_user_by_email db (ri_email payload) = Some usr
                 \<and> u_reset_token usr \<noteq> Some (ri_reset_token payload)
            \<longrightarrow> reset H SALT db payload clk
                  = (Inl (HTTPException 400 ''Invalid or expired token''), db))
       \<and> (\<forall>usr e. get_user_by_email db (ri_email payload) = Some usr
                 \<and> u_reset_token_expires usr = Some e \<and> e < clk 0
            \<longrightarrow> reset H SALT db payload clk
                  = (Inl (HTTPException 400 ''Invalid or expired token''), db))
       \<and> (\<forall>usr. get_user_by_email db (ri_email payload) = Some usr
                 \<and> fst (reset H SALT db payload clk) = Inr ()
            \<longrightarrow> get_user_by_email (snd (reset H SALT db payload clk)) (ri_email payload)
                  = Some (usr\<lparr>u_password_hash := H (ri_new_password payload @ SALT),
                               u_reset_token := None, u_reset_token_expires := None\<rparr>)
                \<and> (\<forall>clk'. fst (reset H SALT (snd (reset H SALT db payload clk)) payload clk')
                            = Inl (HTTPException 400 ''Invalid or expired token'')))"
proof -
  let ?r = "reset H SALT db payload clk"
  let ?bad = "Inl (HTTPException 400 ''Invalid or expired token'') :: error + unit"
  have iff: "(fst ?r = Inr ()) =
            (\<exists>usr e. get_user_by_email db (ri_email payload) = Some usr
                  \<and> u_reset_token usr = Some (ri_reset_token payload)
                  \<and> u_reset_token_expires usr = Some e \<and> clk 0 \<le> e)"
    by (auto simp: reset_def split: option.splits)
  have unknown: "get_user_by_email db (ri_email payload) = None \<longrightarrow> ?r = (?bad, db)"
    by (simp add: reset_def)
  have mismatch: "\<forall>usr. get_user_by_email db (ri_email payload) = Some usr
                 \<and> u_reset_token usr \<noteq> Some (ri_reset_token payload) \<longrightarrow> ?r = (?bad, db)"
    by (simp add: reset_def)
  have late: "\<forall>usr e. get_user_by_email db (ri_email payload) = Some usr
                 \<and> u_reset_token_expires usr = Some e \<and> e < clk 0 \<longrightarrow> ?r = (?bad, db)"
    by (auto simp: reset_def)
  have after: "get_user_by_email (snd ?r) (ri_email payload)
                  = Some (usr\<lparr>u_password_hash := H (ri_new_password payload @ SALT),
                               u_reset_token := None, u_reset_token_expires := None\<rparr>)
                \<and> (\<forall>clk'. fst (reset H SALT (snd ?r) payload clk') = ?bad)"
    if u: "get_user_by_email db (ri_email payload) = Some usr" and ok: "fst ?r = Inr ()" for usr
  proof -
    let ?f = "\<lambda>u. u\<lparr>u_password_hash := hash_password H SALT (ri_new_password payload),
                      u_reset_token := None, u_reset_token_expires := None\<rparr>"
    have r: "?r = (Inr (), db\<lparr>user := update_one (\<lambda>x. u_id x = u_id usr) ?f (user db)\<rparr>)"
      using u ok by (simp add: reset_def split: option.splits if_splits)
    have em: "u_email (?f usr) = ri_email payload"
      using user_email_of_found [OF u] by simp
    from user_after_update [where f = ?f, OF assms u em]
    have g: "get_user_by_email (snd ?r) (ri_email payload) = Some (?f usr)"
      unfolding r by (simp add: get_user_by_email_def)
    have "fst (reset H SALT (snd ?r) payload clk') = ?bad" for clk'
      using g by (simp add: reset_def [of H SALT "snd ?r"])
    then show ?thesis using g by (simp add: hash_password_def)
  qed
  show ?thesis
    by (intro conjI iff unknown mismatch late allI impI after; (elim conjE)?; assumption?)
qed

theorem reset_succeeds_iff_token_current_witness:
  "distinct (map u_id (user demo_db))
   \<and> get_user_by_email demo_db (ri_email alice_reset) = Some alice_doc
   \<and> u_reset_token alice_doc = Some (ri_reset_token alice_reset)
   \<and> u_reset_token_expires alice_doc = Some 500
   \<and> fst (reset rev ''salt'' demo_db alice_reset (at_time 400)) = Inr ()
   \<and> get_user_by_email (snd (reset rev ''salt'' demo_db alice_reset (at_time 400)))
        (ri_email alice_reset)
       = Some (alice_doc\<lparr>u_password_hash := ''tlas9wp'', u_reset_token := None,
                         u_reset_token_expires := None\<rparr>)
   \<and> fst (reset rev ''salt'' (snd (reset rev ''salt'' demo_db alice_reset (at_time 400)))
          alice_reset (at_time 401))
       = Inl (HTTPException 400 ''Invalid or expired token'')
   \<and> reset rev ''salt'' demo_db alice_reset (at_time 501)
       = (Inl (HTTPException 400 ''Invalid or expired token''), demo_db)
   \<and> reset rev ''salt'' demo_db (alice_reset\<lparr>ri_reset_token := ''R2''\<rparr>) (at_time 400)
       = (Inl (HTTPException 400 ''Invalid or expired token''), demo_db)
   \<and> get_user_by_email demo_db (ri_email carol_reset) = None
   \<and> reset rev ''salt'' demo_db carol_reset (at_time 400)
       = (Inl (HTTPException 400 ''Invalid or expired token''), demo_db)"
proof -
  have d: "distinct (map u_id (user demo_db))"
    by (simp add: demo_db_def alice_doc_def bob_doc_def)
  have u: "get_user_by_email demo_db (ri_email alice_reset) = Some alice_doc"
    by (simp add: get_user_by_email_def demo_db_def alice_reset_def alice_doc_def)
  have u': "get_user_by_email demo_db (ri_email (alice_reset\<lparr>ri_reset_token := ''R2''\<rparr>))
      = Some alice_doc"
    using u by simp
  have c: "get_user_by_email demo_db (ri_email carol_reset) = None"
    by (simp add: get_user_by_email_def demo_db_def carol_reset_def alice_doc_def bob_doc_def)
  have tk: "u_reset_token alice_doc = Some (ri_reset_token alice_reset)"
    by (simp add: alice_doc_def alice_reset_def)
  have ex: "u_reset_token_expires alice_doc = Some 500"
    by (simp add: alice_doc_def)
  note t1 = reset_succeeds_iff_token_current [OF d, where H = rev and SALT = "''salt''"
      and payload = alice_reset and clk = "at_time 400"]
  note t2 = reset_succeeds_iff_token_current [OF d, where H = rev and SALT = "''salt''"
      and payload = alice_reset and clk = "at_time 501"]
  note t3 = reset_succeeds_iff_token_current [OF d, where H = rev and SALT = "''salt''"
      and payload = "alice_reset\<lparr>ri_reset_token := ''R2''\<rparr>" and clk = "at_time 400"]
  note t4 = reset_succeeds_iff_token_current [OF d, where H = rev and SALT = "''salt''"
      and payload = carol_reset and clk = "at_time 400"]
  have ok: "fst (reset rev ''salt'' demo_db alice_reset (at_time 400)) = Inr ()"
    using t1 [THEN conjunct1] u tk ex by (simp add: at_time_def)
  have aft: "get_user_by_email (snd (reset rev ''salt'' demo_db alice_reset (at_time 400)))
        (ri_email alice_reset)
       = Some (alice_doc\<lparr>u_password_hash := ''tlas9wp'', u_reset_token := None,
                         u_reset_token_expires := None\<rparr>)
     \<and> fst (reset rev ''salt'' (snd (reset rev ''salt'' demo_db alice_reset (at_time 400)))
          alice_reset (at_time 401))
       = Inl (HTTPException 400 ''Invalid or expired token'')"
    using t1 [THEN conjunct2, THEN conjunct2, THEN conjunct2, THEN conjunct2, THEN spec,
        of alice_doc] u ok
    by (simp add: alice_reset_def)
  have late: "reset rev ''salt'' demo_db alice_reset (at_time 501)
       = (Inl (HTTPException 400 ''Invalid or expired token''), demo_db)"
    using t2 [THEN conjunct2, THEN conjunct2, THEN conjunct2, THEN conjunct1, THEN spec,
        THEN spec, of alice_doc 500] u ex
    by (simp add: at_time_def)
  have mis: "reset rev ''salt'' demo_db (alice_reset\<lparr>ri_reset_token := ''R2''\<rparr>) (at_time 400)
       = (Inl (HTTPException 400 ''Invalid or expired token''), demo_db)"
    using t3 [THEN conjunct2, THEN conjunct2, THEN conjunct1, THEN spec, of alice_doc] u'
    by (simp add: alice_doc_def)
  have unk: "reset rev ''salt'' demo_db carol_reset (at_time 400)
       = (Inl (HTTPException 400 ''Invalid or expired token''), demo_db)"
    using t4 [THEN conjunct2, THEN conjunct1] c by simp
  show ?thesis
    by (intro conjI d u tk ex ok aft [THEN conjunct1] aft [THEN conjunct2] late mis c unk)
qed

text \<open>
  C2 as stated fails when the clock reads exactly the expiry: the stored expiry is 500,
  the clock reads 500, and \<open>reset\<close> succeeds.
\<close>

theorem reset_at_expiry_counterexample:
  "get_user_by_email demo_db (ri_email alice_reset) = Some alice_doc
   \<and> u_reset_token alice_doc = Some (ri_reset_token alice_reset)
   \<and> u_reset_token_expires alice_doc = Some 500 \<and> at_time 500 0 = 500
   \<and> fst (reset rev ''salt'' demo_db alice_reset (at_time 500)) = Inr ()"
  by (simp add: reset_def get_user_by_email_def demo_db_def alice_reset_def alice_doc_def
      at_time_def)

section \<open>The reset fields of a user\<close>

lemma list_all_update_one:
  "list_all P xs \<Longrightarrow> (\<And>x. P x \<Longrightarrow> P (f x)) \<Longrightarrow> list_all P (update_one Q f xs)"
  by (induction xs) auto

lemma user_get_current_user [simp]: "user (snd (get_current_user db a clk)) = user db"
  by (simp add: get_current_user_def split: option.splits)

lemma user_medication_routes [simp]:
  "user (snd (create_med U db med usr clk)) = user db"
  "user (snd (update_med U db i med usr clk)) = user db"
  "user (snd (delete_med db i usr)) = user db"
  "user (snd (mark_taken db i usr clk)) = user db"
  "user (snd (snooze db i usr clk)) = user db"
  by (simp_all add: create_med_def update_med_def delete_med_def mark_taken_def snooze_def
      split: option.splits)

lemma paired_medication_routes:
  assumes "reset_fields_paired db"
  shows "reset_fields_paired (snd (create_med U db med usr clk))"
    and "reset_fields_paired (snd (update_med U db i med usr clk))"
    and "reset_fields_paired (snd (delete_med db i usr))"
    and "reset_fields_paired (snd (mark_taken db i usr clk))"
    and "reset_fields_paired (snd (snooze db i usr clk))"
  using assms unfolding reset_fields_paired_def by simp_all

lemma paired_signup:
  "reset_fields_paired db \<Longrightarrow> reset_fields_paired (snd (signup H SALT db p tok clk))"
  by (simp add: signup_def reset_fields_paired_def Let_def split: option.splits)

lemma paired_login:
  "reset_fields_paired db \<Longrightarrow> reset_fields_paired (snd (login H SALT db p tok clk))"
  by (simp add: login_def reset_fields_paired_def Let_def split: option.splits)

lemma paired_logout:
  "reset_fields_paired db \<Longrightarrow> reset_fields_paired (snd (logout db a))"
  by (simp add: logout_def reset_fields_paired_def split: option.splits)

lemma paired_forgot:
  "reset_fields_paired db \<Longrightarrow> reset_fields_paired (snd (forgot db email tok clk))"
  by (simp add: forgot_def reset_fields_paired_def list_all_update_one split: option.splits)

lemma paired_reset:
  "reset_fields_paired db \<Longrightarrow> reset_fields_paired (snd (reset H SALT db p clk))"
  by (simp add: reset_def reset_fields_paired_def list_all_update_one split: option.splits)

lemma paired_update_settings:
  "reset_fields_paired db \<Longrightarrow> reset_fields_paired (snd (update_settings db b usr))"
  by (simp add: update_settings_def reset_fields_paired_def list_all_update_one
      split: option.splits)

lemma paired_authenticated:
  assumes "reset_fields_paired db"
    and "\<And>d usr. reset_fields_paired d \<Longrightarrow> reset_fields_paired (h d usr)"
  shows "reset_fields_paired (authenticated db a clk h)"
proof -
  have p: "reset_fields_paired (snd (get_current_user db a clk))"
    using assms(1) unfolding reset_fields_paired_def by simp
  show ?thesis
  proof (cases "get_current_user db a clk")
    case (Pair r d)
    then show ?thesis
      using p assms(2) by (cases r) (simp_all add: authenticated_def)
  qed
qed

lemma paired_handle:
  "reset_fields_paired db \<Longrightarrow> reset_fields_paired (handle H SALT U db r)"
proof (cases r)
  case (Signup p tok clk)
  assume "reset_fields_paired db"
  then show ?thesis using Signup by (simp add: paired_signup)
next
  case (Login p tok clk)
  assume "reset_fields_paired db"
  then show ?thesis using Login by (simp add: paired_login)
next
  case (Logout a)
  assume "reset_fields_paired db"
  then show ?thesis using Logout by (simp add: paired_logout)
next
  case (Forgot email tok clk)
  assume "reset_fields_paired db"
  then show ?thesis using Forgot by (simp add: paired_forgot)
next
  case (Reset p clk)
  assume "reset_fields_paired db"
  then show ?thesis using Reset by (simp add: paired_reset)
next
  case (Me a ca)
  assume "reset_fields_paired db"
  then show ?thesis using Me by (simp add: paired_authenticated)
next
  case (UpdateSettings a ca b)
  assume "reset_fields_paired db"
  then show ?thesis using UpdateSettings
    by (simp add: paired_authenticated paired_update_settings)
next
  case (CreateMed a ca med clk)
  assume "reset_fields_paired db"
  then show ?thesis using CreateMed
    by (simp add: paired_authenticated paired_medication_routes)
next
  case (UpdateMed a ca i med clk)
  assume "reset_fields_paired db"
  then show ?thesis using UpdateMed
    by (simp add: paired_authenticated paired_medication_routes)
next
  case (DeleteMed a ca i)
  assume "reset_fields_paired db"
  then show ?thesis using DeleteMed
    by (simp add: paired_authenticated paired_medication_routes)
next
  case (MarkTaken a ca i clk)
  assume "reset_fields_paired db"
  then show ?thesis using MarkTaken
    by (simp add: paired_authenticated paired_medication_routes)
next
  case (Snooze a ca i clk)
  assume "reset_fields_paired db"
  then show ?thesis using Snooze
    by (simp add: paired_authenticated paired_medication_routes)
qed

lemma paired_run:
  "reset_fields_paired db \<Longrightarrow> reset_fields_paired (run H SALT U db rs)"
  by (induction rs arbitrary: db) (simp_all add: paired_handle)

lemma paired_found:
  assumes "reset_fields_paired db" and "get_user_by_email db email = Some usr"
  shows "(u_reset_token usr = None) = (u_reset_token_expires usr = None)"
proof -
  have "usr \<in> set (user db)"
    using find_one_Some [of "\<lambda>u. u_email u = email" "user db" usr] assms(2)
    by (simp add: get_user_by_email_def)
  then show ?thesis
    using assms(1) by (simp add: reset_fields_paired_def list_all_iff)
qed

lemma reset_no_TypeError:
  assumes "reset_fields_paired db"
  shows "fst (reset H SALT db payload clk) \<noteq> Inl TypeError"
proof (cases "get_user_by_email db (ri_email payload)")
  case None
  then show ?thesis by (simp add: reset_def)
next
  case (Some usr)
  show ?thesis
  proof (cases "u_reset_token usr = Some (ri_reset_token payload)")
    case True
    then have "u_reset_token_expires usr \<noteq> None"
      using paired_found [OF assms Some] by auto
    then show ?thesis
      using Some True by (auto simp: reset_def split: if_splits)
  next
    case False
    then show ?thesis using Some by (simp add: reset_def)
  qed
qed

text \<open>
  C10. Every request keeps the property that each user document has a reset token exactly
  when it has a reset expiry. The property holds in every state that the service reaches
  from the empty database, and in such a state \<open>reset\<close> never raises the \<^verbatim>\<open>TypeError\<close> of
  comparing a missing expiry with the clock.
\<close>

theorem reset_fields_stay_paired:
  "(reset_fields_paired db \<longrightarrow> reset_fields_paired (handle H SALT U db r))
   \<and> reset_fields_paired (run H SALT U empty_db reqs)
   \<and> fst (reset H SALT (run H SALT U empty_db reqs) payload clk) \<noteq> Inl TypeError"
proof -
  have init: "reset_fields_paired empty_db"
    by (simp add: reset_fields_paired_def empty_db_def)
  have reach: "reset_fields_paired (run H SALT U empty_db reqs)"
    by (rule paired_run [OF init])
  show ?thesis
    by (intro conjI impI paired_handle reach reset_no_TypeError [OF reach])
qed

theorem reset_fields_stay_paired_witness:
  "reset_fields_paired demo_db
   \<and> reset_fields_paired (handle rev ''salt'' caseless demo_db (Forgot ''b@x.com'' ''R2'' (at_time 5)))
   \<and> map u_reset_token
        (user (handle rev ''salt'' caseless demo_db (Forgot ''b@x.com'' ''R2'' (at_time 5))))
       = [Some ''R1'', Some ''R2'']
   \<and> map u_reset_token_expires
        (user (handle rev ''salt'' caseless demo_db (Forgot ''b@x.com'' ''R2'' (at_time 5))))
       = [Some 500, Some 3600000005]
   \<and> reset_fields_paired (run rev ''salt'' caseless empty_db carol_requests)
   \<and> map u_reset_token (user (run rev ''salt'' caseless empty_db carol_requests)) = [Some ''R3'']
   \<and> map u_reset_token_expires (user (run rev ''salt'' caseless empty_db carol_requests))
       = [Some 3600000010]
   \<and> fst (reset rev ''salt'' (run rev ''salt'' caseless empty_db carol_requests) carol_reset (at_time 20))
       \<noteq> Inl TypeError"
proof -
  note t = reset_fields_stay_paired [where db = demo_db and H = rev and SALT = "''salt''"
      and U = caseless
      and r = "Forgot ''b@x.com'' ''R2'' (at_time 5)" and reqs = carol_requests
      and payload = carol_reset and clk = "at_time 20"]
  have p: "reset_fields_paired demo_db"
    by (simp add: reset_fields_paired_def demo_db_def alice_doc_def bob_doc_def)
  have f: "user (snd (forgot demo_db ''b@x.com'' ''R2'' (at_time 5)))
      = [alice_doc, bob_doc\<lparr>u_reset_token := Some ''R2'',
                             u_reset_token_expires := Some 3600000005\<rparr>]"
    by (simp add: forgot_def get_user_by_email_def demo_db_def alice_doc_def bob_doc_def
        at_time_def hours_def)
  have s: "snd (signup rev ''salt'' empty_db carol_in ''T3'' (ticking 0))
      = \<lparr>user = [\<lparr>u_id = 0, u_name = ''Carol'', u_email = ''c@x.com'',
                   u_password_hash = ''tlas3wp'', u_notifications_enabled = True,
                   u_created_at = 0, u_updated_at = 1,
                   u_reset_token = None, u_reset_token_expires = None\<rparr>],
         session = [\<lparr>s_id = 1, s_user_id = 0, s_token = ''T3'', s_created_at = 2,
                      s_expires_at = Some 604800000003\<rparr>],
         medication = [], next_oid = 2\<rparr>"
    by (simp add: signup_def get_user_by_email_def empty_db_def carol_in_def ticking_def
        days_def hash_password_def Let_def)
  have r: "user (run rev ''salt'' caseless empty_db carol_requests)
      = [\<lparr>u_id = 0, u_name = ''Carol'', u_email = ''c@x.com'',
           u_password_hash = ''tlas3wp'', u_notifications_enabled = True,
           u_created_at = 0, u_updated_at = 1,
           u_reset_token = Some ''R3'', u_reset_token_expires = Some 3600000010\<rparr>]"
    by (simp add: carol_requests_def s forgot_def get_user_by_email_def ticking_def hours_def)
  show ?thesis
    using t p by (simp add: f r alice_doc_def bob_doc_def)
qed

section \<open>Identifiers stay unique\<close>

text \<open>
  The hypothesis of distinct identifiers used above holds in every state that the service
  reaches from the empty database: \<open>insert_one\<close> takes a fresh identifier from the
  counter, \<open>update_one\<close> keeps identifiers and \<open>delete_one\<close> only removes a document.
\<close>

lemma map_key_update_one:
  "(\<And>x. g (f x) = g x) \<Longrightarrow> map g (update_one Q f xs) = map g xs"
  by (induction xs) auto

lemma set_delete_one: "set (delete_one P xs) \<subseteq> set xs"
  by (induction xs) auto

lemma distinct_delete_one: "distinct (map g xs) \<Longrightarrow> distinct (map g (delete_one P xs))"
proof (induction xs)
  case Nil
  then show ?case by simp
next
  case (Cons a xs)
  have "g a \<notin> g ` set (delete_one P xs)"
    using Cons.prems set_delete_one [of P xs] by auto
  then show ?case using Cons by simp
qed

lemma list_all_delete_one: "list_all P xs \<Longrightarrow> list_all P (delete_one Q xs)"
  using set_delete_one [of Q xs] by (auto simp: list_all_iff)

lemma below_update_one:
  "list_all (\<lambda>x. g x < n) xs \<Longrightarrow> (\<And>x. g (f x) = g x)
     \<Longrightarrow> list_all (\<lambda>x. g x < n) (update_one Q f xs)"
  by (induction xs) auto

lemma ids_ok_get_current_user:
  "ids_ok db \<Longrightarrow> ids_ok (snd (get_current_user db a clk))"
  by (simp add: get_current_user_def ids_ok_def unique_ids_def ids_below_def
      distinct_delete_one list_all_delete_one split: option.splits)

lemma ids_ok_signup: "ids_ok db \<Longrightarrow> ids_ok (snd (signup H SALT db p tok clk))"
  by (auto simp: signup_def ids_ok_def unique_ids_def ids_below_def Let_def list_all_iff
      less_Suc_eq split: option.splits)

lemma ids_ok_login: "ids_ok db \<Longrightarrow> ids_ok (snd (login H SALT db p tok clk))"
  by (auto simp: login_def ids_ok_def unique_ids_def ids_below_def Let_def list_all_iff
      less_Suc_eq split: option.splits)

lemma ids_ok_logout: "ids_ok db \<Longrightarrow> ids_ok (snd (logout db a))"
  by (simp add: logout_def ids_ok_def unique_ids_def ids_below_def
      distinct_delete_one list_all_delete_one split: option.splits)

lemma ids_ok_forgot: "ids_ok db \<Longrightarrow> ids_ok (snd (forgot db email tok clk))"
  by (simp add: forgot_def ids_ok_def unique_ids_def ids_below_def
      map_key_update_one below_update_one split: option.splits)

lemma ids_ok_reset: "ids_ok db \<Longrightarrow> ids_ok (snd (reset H SALT db p clk))"
  by (simp add: reset_def ids_ok_def unique_ids_def ids_below_def
      map_key_update_one below_update_one split: option.splits)

lemma ids_ok_update_settings: "ids_ok db \<Longrightarrow> ids_ok (snd (update_settings db b usr))"
  by (simp add: update_settings_def ids_ok_def unique_ids_def ids_below_def
      map_key_update_one below_update_one split: option.splits)

lemma ids_ok_create_med: "ids_ok db \<Longrightarrow> ids_ok (snd (create_med U db med usr clk))"
  by (auto simp: create_med_def ids_ok_def unique_ids_def ids_below_def Let_def list_all_iff
      less_Suc_eq)

lemma ids_ok_update_med: "ids_ok db \<Longrightarrow> ids_ok (snd (update_med U db i med usr clk))"
  by (simp add: update_med_def ids_ok_def unique_ids_def ids_below_def Let_def
      map_key_update_one below_update_one split: option.splits)

lemma ids_ok_delete_med: "ids_ok db \<Longrightarrow> ids_ok (snd (delete_med db i usr))"
  by (simp add: delete_med_def ids_ok_def unique_ids_def ids_below_def
      distinct_delete_one list_all_delete_one)

lemma ids_ok_mark_taken: "ids_ok db \<Longrightarrow> ids_ok (snd (mark_taken db i usr clk))"
  by (simp add: mark_taken_def ids_ok_def unique_ids_def ids_below_def
      map_key_update_one below_update_one split: option.splits)

lemma ids_ok_snooze: "ids_ok db \<Longrightarrow> ids_ok (snd (snooze db i usr clk))"
  by (simp add: snooze_def ids_ok_def unique_ids_def ids_below_def
      map_key_update_one below_update_one split: option.splits)

lemma ids_ok_authenticated:
  assumes "ids_ok db" and "\<And>d usr. ids_ok d \<Longrightarrow> ids_ok (h d usr)"
  shows "ids_ok (authenticated db a clk h)"
proof (cases "get_current_user db a clk")
  case (Pair r d)
  then have "ids_ok d"
    using ids_ok_get_current_user [OF assms(1), of a clk] by simp
  then show ?thesis
    using Pair assms(2) by (cases r) (simp_all add: authenticated_def)
qed

lemma ids_ok_handle: "ids_ok db \<Longrightarrow> ids_ok (handle H SALT U db r)"
  by (cases r)
    (simp_all add: ids_ok_signup ids_ok_login ids_ok_logout ids_ok_forgot ids_ok_reset
      ids_ok_authenticated ids_ok_update_settings ids_ok_create_med ids_ok_update_med
      ids_ok_delete_med ids_ok_mark_taken ids_ok_snooze)

lemma ids_ok_run: "ids_ok db \<Longrightarrow> ids_ok (run H SALT U db rs)"
  by (induction rs arbitrary: db) (simp_all add: ids_ok_handle)

lemma unique_ids_reachable: "unique_ids (run H SALT U empty_db rs)"
proof -
  have "ids_ok empty_db"
    by (simp add: ids_ok_def unique_ids_def ids_below_def empty_db_def)
  then show ?thesis
    using ids_ok_run [of empty_db H SALT U rs] by (simp add: ids_ok_def)
qed

end
